theory Spec2Isabelle
  imports Main "HOL-Library.Sublist"
begin

section \<open>Strings and integers of the source language\<close>

text \<open>
  A Python string is modelled as a \<open>string\<close> whose characters are the code points
  0 to 255, one \<open>char\<close> per Python character. In that range the regular expression
  class \<open>\d\<close> is exactly the ten ASCII digits, and the white space of \<open>\s\<close>,
  \<open>str.strip\<close> and \<open>str.split\<close> is the set given by \<open>is_space\<close> below. Python
  integers are unbounded and are modelled as \<open>int\<close>.
\<close>

definition is_digit :: "char \<Rightarrow> bool" where
  "is_digit c = (48 \<le> (of_char c :: nat) \<and> (of_char c :: nat) \<le> 57)"

text \<open>
  The exceptions that the code below can raise, as values: a function that can raise
  returns \<open>py_error + 'a\<close>, with \<open>Inl\<close> for the exception.
\<close>

datatype py_error = KeyError | ValueError | RequestError | ParserRejectedMarkup

text \<open>The number that a run of decimal digits denotes.\<close>

definition int_of_digits :: "string \<Rightarrow> int" where
  "int_of_digits ds = foldl (\<lambda>acc c. 10 * acc + int (of_char c - 48)) 0 ds"

text \<open>
  \<open>int(ds)\<close> on a run of decimal digits. CPython (3.11, and the maintenance releases
  of 3.7 to 3.10 since September 2022) refuses to convert a string of more than
  \<open>sys.get_int_max_str_digits()\<close> digits, leading zeros counted, and raises
  \<open>ValueError\<close>; the limit is 4300 unless the interpreter is configured otherwise.
  Rendering an integer as a string has the same limit, which no integer below reaches:
  each comes from at most 4300 digits.
\<close>

definition max_str_digits :: nat where
  "max_str_digits = 4300"

definition py_int :: "string \<Rightarrow> py_error + int" where
  "py_int ds = (if max_str_digits < length ds then Inl ValueError else Inr (int_of_digits ds))"

definition digit_char :: "nat \<Rightarrow> char" where
  "digit_char n = ''0123456789'' ! n"

fun str_nat :: "nat \<Rightarrow> string" where
  "str_nat n =
     (if n < 10 then [digit_char n] else str_nat (n div 10) @ [digit_char (n mod 10)])"

declare str_nat.simps [simp del]

text \<open>\<open>str(i)\<close>, which is also what the format field \<open>{i}\<close> renders.\<close>

definition py_str :: "int \<Rightarrow> string" where
  "py_str i = (if i < 0 then CHR ''-'' # str_nat (nat (- i)) else str_nat (nat i))"

text \<open>
  The format field \<open>{i:02d}\<close>: the decimal rendering, filled on the left with zeros up
  to a width of two characters. A negative number already has two characters.
\<close>

definition fmt_02d :: "int \<Rightarrow> string" where
  "fmt_02d i = (let t = py_str i in replicate (2 - length t) CHR ''0'' @ t)"

text \<open>
  The characters for which \<open>str.isspace\<close> holds among the code points 0 to 255. The
  class \<open>\s\<close> of a string pattern, \<open>str.strip()\<close> and \<open>str.split()\<close> all use it.
\<close>

definition is_space :: "char \<Rightarrow> bool" where
  "is_space c =
     (let n = (of_char c :: nat)
      in (9 \<le> n \<and> n \<le> 13) \<or> (28 \<le> n \<and> n \<le> 32) \<or> n = 133 \<or> n = 160)"

abbreviation NL :: char where
  "NL \<equiv> CHR 0x0A"

text \<open>\<open>s.strip()\<close>\<close>

definition strip :: "string \<Rightarrow> string" where
  "strip s = rev (dropWhile is_space (rev (dropWhile is_space s)))"

text \<open>
  \<open>s.split()\<close>: the maximal runs of characters that are not white space.
  \<open>split_from w cs\<close> scans \<open>cs\<close> with the word \<open>w\<close> read so far.
\<close>

fun split_from :: "string \<Rightarrow> string \<Rightarrow> string list" where
  "split_from w [] = (if w = [] then [] else [w])"
| "split_from w (c # cs) =
     (if is_space c then (if w = [] then split_from [] cs else w # split_from [] cs)
      else split_from (w @ [c]) cs)"

definition split :: "string \<Rightarrow> string list" where
  "split s = split_from [] s"

text \<open>\<open>sep.join(xs)\<close>\<close>

fun join :: "string \<Rightarrow> string list \<Rightarrow> string" where
  "join sep [] = []"
| "join sep [x] = x"
| "join sep (x # y # ys) = x @ sep @ join sep (y # ys)"

text \<open>Lower case of the ASCII letters.\<close>

definition to_lower :: "char \<Rightarrow> char" where
  "to_lower c =
     (case map_of (zip ''ABCDEFGHIJKLMNOPQRSTUVWXYZ'' ''abcdefghijklmnopqrstuvwxyz'') c of
        Some l \<Rightarrow> l
      | None \<Rightarrow> c)"

text \<open>
  \<^verbatim>\<open>re.sub(r'\n\s*\n', '\n\n', content)\<close>: the matches are found from left to right and
  do not overlap. A match starts at a newline; the greedy \<open>\s*\<close> takes the whole run of
  white space after it and gives characters back until a newline ends the match, so the
  match ends at the last newline of that run. The scan resumes right after the match.
\<close>

definition after_last_newline :: "string \<Rightarrow> string" where
  "after_last_newline ws = rev (takeWhile (\<lambda>c. c \<noteq> NL) (rev ws))"

function sub_blank_lines :: "string \<Rightarrow> string" where
  "sub_blank_lines [] = []"
| "sub_blank_lines (c # cs) =
     (if c = NL \<and> NL \<in> set (takeWhile is_space cs)
      then [NL, NL] @
           sub_blank_lines (after_last_newline (takeWhile is_space cs) @ dropWhile is_space cs)
      else c # sub_blank_lines cs)"
  by pat_completeness auto

lemma length_takeWhile_less:
  "x \<in> set xs \<Longrightarrow> \<not> P x \<Longrightarrow> length (takeWhile P xs) < length xs"
  by (induction xs) auto

lemma length_after_last_newline:
  "NL \<in> set ws \<Longrightarrow> length (after_last_newline ws) < length ws"
  using length_takeWhile_less [of NL "rev ws" "\<lambda>c. c \<noteq> NL"]
  by (simp add: after_last_newline_def)

termination sub_blank_lines
proof (relation "measure length")
  show "wf (measure length)" by simp
next
  fix c :: char and cs :: string
  assume "c = NL \<and> NL \<in> set (takeWhile is_space cs)"
  then have "length (after_last_newline (takeWhile is_space cs)) < length (takeWhile is_space cs)"
    by (simp add: length_after_last_newline)
  moreover have "length (takeWhile is_space cs) + length (dropWhile is_space cs) = length cs"
    by (metis length_append takeWhile_dropWhile_id)
  ultimately show
    "(after_last_newline (takeWhile is_space cs) @ dropWhile is_space cs, c # cs) \<in> measure length"
    by simp
next
  fix c :: char and cs :: string
  show "(cs, c # cs) \<in> measure length" by simp
qed

section \<open>The duration parser (youtube\_integration.py)\<close>

text \<open>
  Both methods start with
  \<^verbatim>\<open>re.match(r'PT(?:(\d+)H)?(?:(\d+)M)?(?:(\d+)S)?', duration)\<close>.
  \<open>re.match\<close> anchors the pattern at the start of the string only. Each optional
  group is greedy: at its position it takes the longest run of digits, and it takes
  part in the match when that run is not empty and the designator follows it; a shorter
  run is followed by a digit, so backtracking finds nothing else. What follows the three
  groups always matches (it is empty), so the first attempt stands.
\<close>

definition match_group :: "char \<Rightarrow> string \<Rightarrow> string option \<times> string" where
  "match_group d s =
     (let ds = takeWhile is_digit s; rest = dropWhile is_digit s
      in if ds \<noteq> [] \<and> rest \<noteq> [] \<and> hd rest = d then (Some ds, tl rest) else (None, s))"

text \<open>The match object: the three groups, or \<open>None\<close> when there is no match.\<close>

definition re_match_duration :: "string \<Rightarrow> (string option \<times> string option \<times> string option) option" where
  "re_match_duration duration =
     (if take 2 duration = ''PT'' then
        (let (g1, r1) = match_group CHR ''H'' (drop 2 duration);
             (g2, r2) = match_group CHR ''M'' r1;
             (g3, r3) = match_group CHR ''S'' r2
         in Some (g1, g2, g3))
      else None)"

text \<open>
  \<open>int(match.group(k) or 0)\<close>: a group that took part is a non-empty string, which
  \<open>int\<close> converts or refuses.
\<close>

definition group_int :: "string option \<Rightarrow> py_error + int" where
  "group_int g = (case g of None \<Rightarrow> Inr 0 | Some ds \<Rightarrow> py_int ds)"

text \<open>
  The local variables \<open>hours\<close>, \<open>minutes\<close>, \<open>seconds\<close> that both methods compute from
  the match in the same three lines, in this order: \<open>Inr None\<close> when there is no match,
  and the exception of the first conversion that raises.
\<close>

definition duration_fields :: "string \<Rightarrow> py_error + (int \<times> int \<times> int) option" where
  "duration_fields duration =
     (case re_match_duration duration of
        None \<Rightarrow> Inr None
      | Some (g1, g2, g3) \<Rightarrow>
          (case group_int g1 of
             Inl e \<Rightarrow> Inl e
           | Inr hours \<Rightarrow>
               (case group_int g2 of
                  Inl e \<Rightarrow> Inl e
                | Inr minutes \<Rightarrow>
                    (case group_int g3 of
                       Inl e \<Rightarrow> Inl e
                     | Inr seconds \<Rightarrow> Inr (Some (hours, minutes, seconds))))))"

definition parse_duration :: "string \<Rightarrow> py_error + string" where
  "parse_duration duration =
     (case duration_fields duration of
        Inl e \<Rightarrow> Inl e
      | Inr (Some (hours, minutes, seconds)) \<Rightarrow>
          Inr (if hours > 0
               then py_str hours @ '':'' @ fmt_02d minutes @ '':'' @ fmt_02d seconds
               else py_str minutes @ '':'' @ fmt_02d seconds)
      | Inr None \<Rightarrow> Inr ''Unknown'')"

definition duration_to_seconds :: "string \<Rightarrow> py_error + int" where
  "duration_to_seconds duration =
     (case duration_fields duration of
        Inl e \<Rightarrow> Inl e
      | Inr (Some (hours, minutes, seconds)) \<Rightarrow> Inr (hours * 3600 + minutes * 60 + seconds)
      | Inr None \<Rightarrow> Inr 0)"

text \<open>
  \<open>self._duration_to_seconds(self._parse_duration(s))\<close>, the composition that
  \<open>_get_video_details\<close> applies to the duration of each item.
\<close>

definition seconds_of_parsed :: "string \<Rightarrow> py_error + int" where
  "seconds_of_parsed s =
     (case parse_duration s of Inl e \<Rightarrow> Inl e | Inr d \<Rightarrow> duration_to_seconds d)"

text \<open>The digit runs of the groups that take part in the match.\<close>

definition matched_groups :: "string \<Rightarrow> string list" where
  "matched_groups s =
     (case re_match_duration s of
        None \<Rightarrow> []
      | Some (g1, g2, g3) \<Rightarrow>
          concat (map (\<lambda>g. case g of None \<Rightarrow> [] | Some ds \<Rightarrow> [ds]) [g1, g2, g3]))"

text \<open>An input with a seconds group of 4301 digits.\<close>

definition long_seconds :: string where
  "long_seconds = ''PT'' @ replicate 4301 CHR ''1'' @ ''S''"

subsection \<open>The pattern as the specification reads it\<close>

text \<open>
  The specification's pattern \<open>PT(<hours>H)?(<minutes>M)?(<seconds>S)?\<close>, each group
  a run of decimal digits before its designator, read as a language: a string matches
  when it is \<open>PT\<close> followed by the groups that are present and by nothing else.
  \<open>opt_group d s\<close> lists what can remain of \<open>s\<close> after an optional group.
\<close>

definition opt_group :: "char \<Rightarrow> string \<Rightarrow> string list" where
  "opt_group d s =
     s # (let ds = takeWhile is_digit s; rest = dropWhile is_digit s
          in if ds \<noteq> [] \<and> rest \<noteq> [] \<and> hd rest = d then [tl rest] else [])"

definition in_duration_pattern :: "string \<Rightarrow> bool" where
  "in_duration_pattern s =
     (take 2 s = ''PT'' \<and>
      [] \<in> set (concat (map (opt_group CHR ''S'')
                 (concat (map (opt_group CHR ''M'') (opt_group CHR ''H'' (drop 2 s)))))))"

text \<open>
  The specification's rendering of minutes and seconds, "zero-padded to two digits".
\<close>

definition two_digits :: "int \<Rightarrow> string" where
  "two_digits n = (if n < 10 then CHR ''0'' # py_str n else py_str n)"

subsection \<open>The video details built from the parser\<close>

text \<open>
  \<open>_get_video_details\<close> asks the API for the videos and builds one detail per item of
  the answer. The HTTP exchange is the environment: \<open>response\<close> is either the exception
  raised by the request, the status check or the JSON decoding, or the list
  \<open>data.get("items", [])\<close>. Of an item the loop reads
  \<open>item["contentDetails"]["duration"]\<close> and \<open>item["statistics"]\<close>, each of which raises
  \<open>KeyError\<close> when absent, and the optional \<open>viewCount\<close> and \<open>likeCount\<close>, which
  default to \<open>"0"\<close>. The conversion \<open>int(...)\<close> of the two counts, which are arbitrary
  strings, is the parameter \<open>count_int\<close>, \<open>None\<close> where it raises \<open>ValueError\<close>. Every
  exception, those of the two duration methods included, is caught by the one handler,
  which returns the fallback list. The field \<open>detail_duration\<close> is the key
  \<open>"duration"\<close>.
\<close>

record statistics =
  viewCount :: "string option"
  likeCount :: "string option"

record api_item =
  contentDetails_duration :: "string option"
  item_statistics :: "statistics option"

record video_detail =
  detail_duration :: string
  duration_seconds :: int
  view_count :: int
  like_count :: int

definition make_detail :: "(string \<Rightarrow> int option) \<Rightarrow> api_item \<Rightarrow> py_error + video_detail" where
  "make_detail count_int item =
     (case contentDetails_duration item of
        None \<Rightarrow> Inl KeyError
      | Some raw \<Rightarrow>
          (case parse_duration raw of
             Inl e \<Rightarrow> Inl e
           | Inr d \<Rightarrow>
               (case item_statistics item of
                  None \<Rightarrow> Inl KeyError
                | Some st \<Rightarrow>
                    let views = (case viewCount st of None \<Rightarrow> ''0'' | Some v \<Rightarrow> v);
                        likes = (case likeCount st of None \<Rightarrow> ''0'' | Some v \<Rightarrow> v)
                    in (case duration_to_seconds d of
                          Inl e \<Rightarrow> Inl e
                        | Inr secs \<Rightarrow>
                            (case count_int views of
                               None \<Rightarrow> Inl ValueError
                             | Some vc \<Rightarrow>
                                 (case count_int likes of
                                    None \<Rightarrow> Inl ValueError
                                  | Some lc \<Rightarrow>
                                      Inr \<lparr>detail_duration = d, duration_seconds = secs,
                                           view_count = vc, like_count = lc\<rparr>))))))"

fun collect_details :: "(string \<Rightarrow> int option) \<Rightarrow> api_item list \<Rightarrow> py_error + video_detail list" where
  "collect_details count_int [] = Inr []"
| "collect_details count_int (item # items) =
     (case make_detail count_int item of
        Inl e \<Rightarrow> Inl e
      | Inr detail \<Rightarrow>
          (case collect_details count_int items of
             Inl e \<Rightarrow> Inl e
           | Inr details \<Rightarrow> Inr (detail # details)))"

definition get_video_details ::
  "(string \<Rightarrow> int option) \<Rightarrow> string list \<Rightarrow> py_error + api_item list \<Rightarrow> video_detail list" where
  "get_video_details count_int video_ids response =
     (let fallback = replicate (length video_ids)
            \<lparr>detail_duration = ''Unknown'', duration_seconds = 0, view_count = 0, like_count = 0\<rparr>
      in case response of
           Inl e \<Rightarrow> fallback
         | Inr items \<Rightarrow>
             (case collect_details count_int items of
                Inl e \<Rightarrow> fallback
              | Inr details \<Rightarrow> details))"

text \<open>A conversion of short decimal digit strings, to run the loop on an example.\<close>

definition digits_int :: "string \<Rightarrow> int option" where
  "digits_int t =
     (if t \<noteq> [] \<and> list_all is_digit t \<and> length t \<le> max_str_digits
      then Some (int_of_digits t) else None)"

section \<open>The HTML content extractor (content\_extraction.py)\<close>

subsection \<open>The parse tree\<close>

text \<open>
  The tree that \<open>BeautifulSoup(html, 'html.parser')\<close> builds: a \<open>Tag\<close> has a name, its
  attributes and its contents; a \<open>NavigableString\<close> is a piece of text and a \<open>CData\<close>
  the text of a CDATA section, the two classes of string that \<open>get_text\<close> collects;
  \<open>Special\<close> stands for the strings of every other class (comments, doctypes,
  declarations, processing instructions, and the text inside script, style, template,
  \<open>rt\<close> and \<open>rp\<close> elements), which \<open>get_text\<close> leaves out when it is called on a
  \<open>title\<close>, \<open>main\<close>, \<open>article\<close>, \<open>div\<close> or \<open>body\<close> element. The \<open>BeautifulSoup\<close>
  object itself is the list of its top-level contents. The attributes are the dictionary
  \<open>tag.attrs\<close>, read with \<open>map_of\<close>; the value of \<open>class\<close> is kept as written and cut
  into its white-space separated values where it is matched.
\<close>

datatype node =
    NavigableString string
  | CData string
  | Special string
  | Tag string "(string \<times> string) list" "node list"

type_synonym soup = "node list"

text \<open>\<open>tag.descendants\<close>: every node below the tag, in document order.\<close>

fun descendants :: "node \<Rightarrow> node list" where
  "descendants (Tag name attrs contents) = concat (map (\<lambda>c. c # descendants c) contents)"
| "descendants (NavigableString s) = []"
| "descendants (CData s) = []"
| "descendants (Special s) = []"

definition soup_descendants :: "soup \<Rightarrow> node list" where
  "soup_descendants soup = concat (map (\<lambda>c. c # descendants c) soup)"

text \<open>\<open>soup.find(...)\<close>: the first descendant that satisfies the criteria, or \<open>None\<close>.\<close>

definition soup_find :: "(node \<Rightarrow> bool) \<Rightarrow> soup \<Rightarrow> node option" where
  "soup_find P soup = List.find P (soup_descendants soup)"

fun named :: "string \<Rightarrow> node \<Rightarrow> bool" where
  "named n (Tag name attrs contents) = (name = n)"
| "named n (NavigableString s) = False"
| "named n (CData s) = False"
| "named n (Special s) = False"

text \<open>
  \<^verbatim>\<open>re.compile(r'content|article|main').search(t)\<close>: one of the three words occurs in
  \<open>t\<close>, in this case exactly.
\<close>

definition re_search_class :: "string \<Rightarrow> bool" where
  "re_search_class t = (sublist ''content'' t \<or> sublist ''article'' t \<or> sublist ''main'' t)"

text \<open>
  The criterion \<open>class_=pattern\<close>: the tag has a \<open>class\<close> attribute and the pattern is
  found in one of its values or, failing that, in the values joined by single spaces.
\<close>

fun class_matches :: "node \<Rightarrow> bool" where
  "class_matches (Tag name attrs contents) =
     (case map_of attrs ''class'' of
        None \<Rightarrow> False
      | Some v \<Rightarrow> list_ex re_search_class (split v) \<or> re_search_class (join '' '' (split v)))"
| "class_matches (NavigableString s) = False"
| "class_matches (CData s) = False"
| "class_matches (Special s) = False"

text \<open>
  \<^verbatim>\<open>for script in soup(names): script.decompose()\<close>: every descendant that satisfies
  \<open>P\<close> is taken out of the tree with all it contains.
\<close>

fun decompose_all :: "(node \<Rightarrow> bool) \<Rightarrow> node \<Rightarrow> node" where
  "decompose_all P (Tag name attrs contents) =
     Tag name attrs (map (decompose_all P) (filter (\<lambda>c. \<not> P c) contents))"
| "decompose_all P (NavigableString s) = NavigableString s"
| "decompose_all P (CData s) = CData s"
| "decompose_all P (Special s) = Special s"

definition soup_decompose_all :: "(node \<Rightarrow> bool) \<Rightarrow> soup \<Rightarrow> soup" where
  "soup_decompose_all P soup = map (decompose_all P) (filter (\<lambda>c. \<not> P c) soup)"

definition script_or_style :: "node \<Rightarrow> bool" where
  "script_or_style n = (named ''script'' n \<or> named ''style'' n)"

text \<open>
  \<open>tag.get_text(separator, strip)\<close>: the text strings below the tag in document order,
  joined by the separator; with \<open>strip=True\<close> each string is stripped first and the
  empty ones are dropped.
\<close>

fun all_strings :: "node \<Rightarrow> string list" where
  "all_strings (NavigableString s) = [s]"
| "all_strings (CData s) = [s]"
| "all_strings (Special s) = []"
| "all_strings (Tag name attrs contents) = concat (map all_strings contents)"

definition get_text :: "string \<Rightarrow> bool \<Rightarrow> node \<Rightarrow> string" where
  "get_text separator strp n =
     join separator
       (if strp then filter (\<lambda>s. s \<noteq> []) (map strip (all_strings n)) else all_strings n)"

subsection \<open>The extractor\<close>

record metadata =
  source :: string
  title :: string
  word_count :: int
  extraction_method :: string

record extracted =
  kind :: string
  content :: string
  metadata :: metadata

text \<open>
  \<open>_extract_html_content(self, html, url)\<close>. The parser of the library is the
  parameter \<open>bs\<close>; it can reject markup, and the method has no handler, so the
  exception is the outcome of the call. A \<open>Tag\<close> is always true in a condition, so
  \<open>a or b\<close> is \<open>a\<close> whenever \<open>find\<close> returned a tag. The field \<open>kind\<close> is the key
  \<open>"type"\<close> of the result.
\<close>

definition extract_html_content ::
  "(string \<Rightarrow> py_error + soup) \<Rightarrow> string \<Rightarrow> string \<Rightarrow> py_error + extracted" where
  "extract_html_content bs html url =
     (case bs html of
        Inl e \<Rightarrow> Inl e
      | Inr parsed \<Rightarrow>
          (let soup = soup_decompose_all script_or_style parsed;
               title_text = (case soup_find (named ''title'') soup of
                               Some t \<Rightarrow> strip (get_text [] False t)
                             | None \<Rightarrow> ''Untitled'');
               main_content =
                 (case soup_find (named ''main'') soup of
                    Some m \<Rightarrow> Some m
                  | None \<Rightarrow>
                      (case soup_find (named ''article'') soup of
                         Some a \<Rightarrow> Some a
                       | None \<Rightarrow> soup_find (\<lambda>n. named ''div'' n \<and> class_matches n) soup));
               content0 = (case main_content of
                             Some m \<Rightarrow> get_text [NL] True m
                           | None \<Rightarrow>
                               (case soup_find (named ''body'') soup of
                                  Some b \<Rightarrow> get_text [NL] True b
                                | None \<Rightarrow> []));
               content1 = strip (sub_blank_lines content0)
           in Inr \<lparr>kind = ''article'', content = content1,
                   metadata = \<lparr>source = url, title = title_text,
                               word_count = int (length (split content1)),
                               extraction_method = ''html_parser''\<rparr>\<rparr>))"

text \<open>The text of a result, or the exception.\<close>

definition body_text :: "py_error + extracted \<Rightarrow> py_error + string" where
  "body_text r = (case r of Inl e \<Rightarrow> Inl e | Inr x \<Rightarrow> Inr (content x))"

subsection \<open>The selection and the clean-up as the specification reads them\<close>

text \<open>
  The third candidate in the specification's words: the first element, of any tag, whose
  class attribute contains one of the three words, letters compared without regard to
  case.
\<close>

fun spec_class_matches :: "node \<Rightarrow> bool" where
  "spec_class_matches (Tag name attrs contents) =
     (case map_of attrs ''class'' of
        None \<Rightarrow> False
      | Some v \<Rightarrow> re_search_class (map to_lower v))"
| "spec_class_matches (NavigableString s) = False"
| "spec_class_matches (CData s) = False"
| "spec_class_matches (Special s) = False"

definition spec_main_content :: "soup \<Rightarrow> node option" where
  "spec_main_content soup =
     (case soup_find (named ''main'') soup of
        Some m \<Rightarrow> Some m
      | None \<Rightarrow>
          (case soup_find (named ''article'') soup of
             Some a \<Rightarrow> Some a
           | None \<Rightarrow>
               (case soup_find spec_class_matches soup of
                  Some e \<Rightarrow> Some e
                | None \<Rightarrow> soup_find (named ''body'') soup)))"

text \<open>The cleaned text of a chosen node, as the extractor computes it.\<close>

definition clean_text :: "node \<Rightarrow> string" where
  "clean_text n = strip (sub_blank_lines (get_text [NL] True n))"

definition spec_body_text :: "soup \<Rightarrow> string" where
  "spec_body_text soup = (case spec_main_content soup of Some n \<Rightarrow> clean_text n | None \<Rightarrow> [])"

text \<open>The text that the specification's selection gives for an input.\<close>

definition spec_extract :: "(string \<Rightarrow> py_error + soup) \<Rightarrow> string \<Rightarrow> py_error + string" where
  "spec_extract bs html =
     (case bs html of
        Inl e \<Rightarrow> Inl e
      | Inr parsed \<Rightarrow> Inr (spec_body_text (soup_decompose_all script_or_style parsed)))"

text \<open>
  The document with the contents of every script and style element erased: two
  documents with the same image differ only inside such elements.
\<close>

fun blank_scripts :: "node \<Rightarrow> node" where
  "blank_scripts (Tag name attrs contents) =
     (if name = ''script'' \<or> name = ''style'' then Tag name attrs []
      else Tag name attrs (map blank_scripts contents))"
| "blank_scripts (NavigableString s) = NavigableString s"
| "blank_scripts (CData s) = CData s"
| "blank_scripts (Special s) = Special s"

subsection \<open>A reference parser\<close>

text \<open>
  The results below hold for every parser \<open>bs\<close>. To run the extractor on markup,
  \<open>html_parser\<close> follows what the library does with Python's \<open>html.parser\<close> (CPython
  3.11, \<open>convert_charrefs\<close> off, the markup fed in one piece and the parser closed):
  the scanner of \<open>HTMLParser.goahead\<close> produces the parser events, and the tree
  builder consumes them. Its result is \<open>None\<close> for markup outside the fragment that is
  modelled: markup with a character that is not ASCII, with \<open>&\<close> (character references)
  or with a quoted attribute value that is not closed. On the rest it is the tree, or
  the exception \<open>ParserRejectedMarkup\<close> where \<open>html.parser\<close> fails an assertion.
\<close>

datatype token =
    StartTag string "(string \<times> string) list" bool
  | EndTag string
  | Data string
  | CDataSection string
  | Markup string
  | Rejected
  | Beyond

definition is_ascii_letter :: "char \<Rightarrow> bool" where
  "is_ascii_letter c =
     (let n = (of_char c :: nat) in (65 \<le> n \<and> n \<le> 90) \<or> (97 \<le> n \<and> n \<le> 122))"

text \<open>
  The character classes of the scanner's patterns: \<^verbatim>\<open>[^\t\n\r\f />\x00]\<close> in a tag
  name, \<^verbatim>\<open>[^\s/=>]\<close> in an attribute name, \<^verbatim>\<open>[-.a-zA-Z0-9:_]\<close> in the name of
  an end tag, \<^verbatim>\<open>[-_.a-zA-Z0-9]\<close> in the name of a marked section.
\<close>

definition tag_name_char :: "char \<Rightarrow> bool" where
  "tag_name_char c =
     (c \<notin> set [CHR 0x09, NL, CHR 0x0D, CHR 0x0C, CHR '' '', CHR ''/'', CHR ''>'', CHR 0x00])"

definition attr_name_char :: "char \<Rightarrow> bool" where
  "attr_name_char c = (\<not> is_space c \<and> c \<noteq> CHR ''/'' \<and> c \<noteq> CHR ''='' \<and> c \<noteq> CHR ''>'')"

definition end_name_char :: "char \<Rightarrow> bool" where
  "end_name_char c = (is_ascii_letter c \<or> is_digit c \<or> c \<in> set ''-.:_'')"

definition decl_name_char :: "char \<Rightarrow> bool" where
  "decl_name_char c = (is_ascii_letter c \<or> is_digit c \<or> c \<in> set ''-_.'')"

text \<open>\<open>break_at P s\<close> cuts \<open>s\<close> before its first suffix that satisfies \<open>P\<close>.\<close>

fun break_at :: "(string \<Rightarrow> bool) \<Rightarrow> string \<Rightarrow> string \<times> string" where
  "break_at P [] = ([], [])"
| "break_at P (c # cs) =
     (if P (c # cs) then ([], c # cs)
      else (let (a, b) = break_at P cs in (c # a, b)))"

lemma suffix_break_at: "suffix (snd (break_at P s)) s"
  by (induction s) (auto split: prod.splits intro: suffix_ConsI)

text \<open>How the scan of a start tag ends.\<close>

datatype tag_end = Closed | SelfClosed | Unterminated | Unmodelled

text \<open>
  An attribute value, quoted or bare, and what follows it; \<open>None\<close> for a quote that is
  not closed.
\<close>

definition scan_value :: "string \<Rightarrow> (string \<times> string) option" where
  "scan_value s =
     (case s of
        [] \<Rightarrow> Some ([], [])
      | q # r \<Rightarrow>
          if q = CHR ''\"'' \<or> q = CHR 0x27
          then (if q \<in> set r
                then Some (takeWhile (\<lambda>x. x \<noteq> q) r, drop 1 (dropWhile (\<lambda>x. x \<noteq> q) r))
                else None)
          else Some (takeWhile (\<lambda>x. \<not> is_space x \<and> x \<noteq> CHR ''>'') s,
                     dropWhile (\<lambda>x. \<not> is_space x \<and> x \<noteq> CHR ''>'') s))"

lemma suffix_scan_value: "scan_value s = Some (v, r) \<Longrightarrow> suffix r s"
  by (auto simp: scan_value_def split: list.splits if_splits
      intro!: suffix_ConsI suffix_dropWhile suffix_order.trans [OF suffix_drop suffix_dropWhile])

text \<open>
  The attributes of a start tag, from the end of its name to its closing \<open>>\<close>: the
  attributes in the order written, how the tag ends, and the input after the tag. An
  attribute without a value has the empty string.
\<close>

function scan_attrs :: "string \<Rightarrow> (string \<times> string) list \<times> tag_end \<times> string" where
  "scan_attrs [] = ([], Unterminated, [])"
| "scan_attrs (c # cs) =
     (if c = CHR ''>'' then ([], Closed, cs)
      else if c = CHR ''/'' \<and> take 1 cs = ''>'' then ([], SelfClosed, drop 1 cs)
      else if is_space c \<or> c = CHR ''/'' then scan_attrs cs
      else
        (let name = map to_lower (c # takeWhile attr_name_char cs);
             r1 = dropWhile is_space (dropWhile attr_name_char cs)
         in if take 1 r1 = ''=''
            then (case scan_value (dropWhile is_space (dropWhile (\<lambda>x. x = CHR ''='') r1)) of
                    None \<Rightarrow> ([], Unmodelled, [])
                  | Some (v, r2) \<Rightarrow>
                      (let (attrs, e, rest) = scan_attrs r2 in ((name, v) # attrs, e, rest)))
            else (let (attrs, e, rest) = scan_attrs (dropWhile attr_name_char cs)
                  in ((name, []) # attrs, e, rest))))"
  by pat_completeness auto

lemma suffix_dropWhile2: "suffix (dropWhile P (dropWhile Q xs)) xs"
  by (rule suffix_order.trans [OF suffix_dropWhile suffix_dropWhile])

termination scan_attrs
proof (relation "measure length")
  show "wf (measure length)" by simp
next
  fix c :: char and cs :: string
  show "(cs, c # cs) \<in> measure length" by simp
next
  fix c :: char and cs x xa x2 xb y
  assume r1: "xa = dropWhile is_space (dropWhile attr_name_char cs)"
    and v: "scan_value (dropWhile is_space (dropWhile (\<lambda>x. x = CHR ''='') xa)) = Some x2"
    and p: "(xb, y) = x2"
  from v p have "suffix y (dropWhile is_space (dropWhile (\<lambda>x. x = CHR ''='') xa))"
    using suffix_scan_value [of _ xb y] by simp
  then have "suffix y xa" using suffix_dropWhile2 suffix_order.trans by blast
  then have "suffix y cs" using r1 suffix_dropWhile2 suffix_order.trans by blast
  then have "length y \<le> length cs" by (rule suffix_length_le)
  then show "(y, c # cs) \<in> measure length" by simp
next
  fix c :: char and cs x xa
  have "length (dropWhile attr_name_char cs) \<le> length cs" by (rule length_dropWhile_le)
  then show "(dropWhile attr_name_char cs, c # cs) \<in> measure length" by simp
qed

lemma suffix_scan_attrs: "suffix (snd (snd (scan_attrs s))) s"
proof (induction s rule: scan_attrs.induct)
  case 1
  show ?case by simp
next
  case (2 c cs)
  let ?r1 = "dropWhile is_space (dropWhile attr_name_char cs)"
  let ?r2 = "dropWhile is_space (dropWhile (\<lambda>x. x = CHR ''='') ?r1)"
  show ?case
  proof (cases "c = CHR ''>'' \<or> (c = CHR ''/'' \<and> take 1 cs = ''>'')")
    case True
    then show ?thesis by (auto intro: suffix_ConsI suffix_drop)
  next
    case a: False
    show ?thesis
    proof (cases "is_space c \<or> c = CHR ''/''")
      case True
      with a 2(1) show ?thesis by (auto intro: suffix_ConsI)
    next
      case b: False
      show ?thesis
      proof (cases "take 1 ?r1 = ''=''")
        case t: True
        show ?thesis
        proof (cases "scan_value ?r2")
          case None
          with a b t show ?thesis by (simp add: Let_def)
        next
          case (Some p)
          obtain v r2 where p: "p = (v, r2)" by (cases p)
          have "suffix (snd (snd (scan_attrs r2))) r2"
            using 2(2) [OF _ _ _ refl refl t Some p [symmetric]] a b by simp
          moreover have "suffix r2 ?r2" using Some p suffix_scan_value by simp
          moreover have "suffix ?r2 ?r1" by (rule suffix_dropWhile2)
          moreover have "suffix ?r1 cs" by (rule suffix_dropWhile2)
          ultimately have "suffix (snd (snd (scan_attrs r2))) (c # cs)"
            using suffix_order.trans suffix_ConsI by metis
          with a b t Some p show ?thesis by (auto simp: Let_def split: prod.splits)
        qed
      next
        case f: False
        have "suffix (snd (snd (scan_attrs (dropWhile attr_name_char cs))))
                (dropWhile attr_name_char cs)"
          using 2(3) [OF _ _ _ refl refl f] a b by simp
        then have "suffix (snd (snd (scan_attrs (dropWhile attr_name_char cs)))) (c # cs)"
          using suffix_dropWhile suffix_order.trans suffix_ConsI by metis
        with a b f show ?thesis by (auto simp: Let_def split: prod.splits)
      qed
    qed
  qed
qed

text \<open>
  Each of the following takes the input after a \<open><\<close> and gives the events of the
  construct that starts there and the input that remains. \<open>incomplete\<close> is what
  \<open>goahead\<close> does at the end of the input with a construct that is not terminated: the
  text up to and including the next \<open>>\<close> is character data, or else the text up to the
  next \<open><\<close>, or else the \<open><\<close> alone.
\<close>

definition incomplete :: "string \<Rightarrow> token list \<times> string" where
  "incomplete cs =
     (if CHR ''>'' \<in> set cs then
        ([Data (CHR ''<'' # takeWhile (\<lambda>x. x \<noteq> CHR ''>'') cs @ ''>'')],
         drop 1 (dropWhile (\<lambda>x. x \<noteq> CHR ''>'') cs))
      else if CHR ''<'' \<in> set cs then
        ([Data (CHR ''<'' # takeWhile (\<lambda>x. x \<noteq> CHR ''<'') cs)],
         dropWhile (\<lambda>x. x \<noteq> CHR ''<'') cs)
      else ([Data ''<''], cs))"

definition after_gt :: "string \<Rightarrow> string" where
  "after_gt s = drop 1 (dropWhile (\<lambda>x. x \<noteq> CHR ''>'') s)"

definition before_gt :: "string \<Rightarrow> string" where
  "before_gt s = takeWhile (\<lambda>x. x \<noteq> CHR ''>'') s"

definition skip_space :: "string \<Rightarrow> string" where
  "skip_space s = dropWhile is_space s"

text \<open>
  Inside a script or style element only its end tag, \<^verbatim>\<open></\s*name\s*>\<close> in any case,
  is markup. When it never comes, nothing more of the input is delivered.
\<close>

definition closes_raw :: "string \<Rightarrow> string \<Rightarrow> bool" where
  "closes_raw name t =
     (take 2 t = ''</'' \<and>
      map to_lower (take (length name) (skip_space (drop 2 t))) = name \<and>
      take 1 (skip_space (drop (length name) (skip_space (drop 2 t)))) = ''>'')"

definition raw_text :: "string \<Rightarrow> string \<Rightarrow> token list \<times> string" where
  "raw_text name s =
     (let (raw, r) = break_at (closes_raw name) s
      in if r = [] then ([], [])
         else ((if raw = [] then [] else [Data raw]) @ [EndTag name], after_gt r))"

definition parse_starttag :: "string \<Rightarrow> token list \<times> string" where
  "parse_starttag cs =
     (let name = map to_lower (takeWhile tag_name_char cs);
          (attrs, e, rest) = scan_attrs (dropWhile tag_name_char cs)
      in case e of
           Closed \<Rightarrow>
             if name = ''script'' \<or> name = ''style''
             then (StartTag name attrs False # fst (raw_text name rest),
                   snd (raw_text name rest))
             else ([StartTag name attrs False], rest)
         | SelfClosed \<Rightarrow> ([StartTag name attrs True], rest)
         | Unterminated \<Rightarrow> incomplete cs
         | Unmodelled \<Rightarrow> ([Beyond], []))"

text \<open>
  An end tag: \<^verbatim>\<open></\s*name\s*>\<close> with a name of the narrow class, or else a name of
  the wide class with everything up to the next \<open>>\<close> ignored; \<open></>\<close> is dropped, and
  anything else is a comment.
\<close>

definition parse_endtag :: "string \<Rightarrow> token list \<times> string" where
  "parse_endtag cs =
     (let r = drop 1 cs; r' = skip_space r
      in if CHR ''>'' \<notin> set r then incomplete cs
         else if r' \<noteq> [] \<and> is_ascii_letter (hd r') \<and>
                 take 1 (skip_space (dropWhile end_name_char r')) = ''>''
         then ([EndTag (map to_lower (takeWhile end_name_char r'))],
               drop 1 (skip_space (dropWhile end_name_char r')))
         else if r \<noteq> [] \<and> is_ascii_letter (hd r)
         then ([EndTag (map to_lower (takeWhile tag_name_char r))], after_gt r)
         else if take 1 r = ''>'' then ([], drop 1 r)
         else ([Markup (before_gt r)], after_gt r))"

text \<open>A comment ends at the first \<^verbatim>\<open>--\s*>\<close>.\<close>

definition comment_close :: "string \<Rightarrow> bool" where
  "comment_close t = (take 2 t = ''--'' \<and> take 1 (skip_space (drop 2 t)) = ''>'')"

definition parse_comment :: "string \<Rightarrow> token list \<times> string" where
  "parse_comment cs =
     (let (a, b) = break_at comment_close (drop 3 cs)
      in if b = [] then incomplete cs
         else ([Markup a], drop 1 (skip_space (drop 2 b))))"

definition parse_pi :: "string \<Rightarrow> token list \<times> string" where
  "parse_pi cs =
     (if CHR ''>'' \<notin> set (drop 1 cs) then incomplete cs
      else ([Markup (before_gt (drop 1 cs))], after_gt (drop 1 cs)))"

text \<open>
  A marked section \<^verbatim>\<open><![name ...\<close>. The name must start with a letter; the keywords
  \<open>temp\<close>, \<open>cdata\<close>, \<open>ignore\<close>, \<open>include\<close>, \<open>rcdata\<close> close at \<^verbatim>\<open>]\s*]\s*>\<close> and
  \<open>if\<close>, \<open>else\<close>, \<open>endif\<close> at \<^verbatim>\<open>]\s*>\<close>. With any other keyword, or without a
  name, \<open>html.parser\<close> raises \<open>AssertionError\<close>, which the library turns into
  \<open>ParserRejectedMarkup\<close>. The text of a section that starts with \<open>CDATA[\<close> becomes a
  \<open>CData\<close> string, any other a declaration.
\<close>

definition section_close :: "string \<Rightarrow> bool" where
  "section_close t =
     (take 1 t = '']'' \<and> take 1 (skip_space (drop 1 t)) = '']'' \<and>
      take 1 (skip_space (drop 1 (skip_space (drop 1 t)))) = ''>'')"

definition ms_section_close :: "string \<Rightarrow> bool" where
  "ms_section_close t = (take 1 t = '']'' \<and> take 1 (skip_space (drop 1 t)) = ''>'')"

definition unknown_decl :: "string \<Rightarrow> token" where
  "unknown_decl d =
     (if map to_lower (take 6 d) = ''cdata['' then CDataSection (drop 6 d) else Markup d)"

definition parse_marked_section :: "string \<Rightarrow> token list \<times> string" where
  "parse_marked_section cs =
     (let r = drop 2 cs;
          name = map to_lower (takeWhile decl_name_char r)
      in if r = [] then incomplete cs
         else if \<not> is_ascii_letter (hd r) then ([Rejected], [])
         else if skip_space (dropWhile decl_name_char r) = [] then incomplete cs
         else if name \<in> set [''temp'', ''cdata'', ''ignore'', ''include'', ''rcdata'']
         then (let (a, b) = break_at section_close r
               in if b = [] then incomplete cs
                  else ([unknown_decl a],
                        drop 1 (skip_space (drop 1 (skip_space (drop 1 b))))))
         else if name \<in> set [''if'', ''else'', ''endif'']
         then (let (a, b) = break_at ms_section_close r
               in if b = [] then incomplete cs
                  else ([unknown_decl a], drop 1 (skip_space (drop 1 b))))
         else ([Rejected], []))"

text \<open>
  \<^verbatim>\<open><!\<close>: a marked section, a doctype (of which the library keeps the text after
  \<open>DOCTYPE\<close> and one more character), or a comment up to the next \<open>>\<close>.
\<close>

definition parse_html_declaration :: "string \<Rightarrow> token list \<times> string" where
  "parse_html_declaration cs =
     (if take 2 cs = ''!['' then parse_marked_section cs
      else if CHR ''>'' \<notin> set (drop 1 cs) then incomplete cs
      else if map to_lower (take 8 cs) = ''!doctype''
      then ([Markup (drop 8 (before_gt (drop 1 cs)))], after_gt (drop 1 cs))
      else ([Markup (before_gt (drop 1 cs))], after_gt (drop 1 cs)))"

text \<open>The dispatch of \<open>goahead\<close> on what follows a \<open><\<close>.\<close>

definition markup :: "string \<Rightarrow> token list \<times> string" where
  "markup cs =
     (if cs \<noteq> [] \<and> is_ascii_letter (hd cs) then parse_starttag cs
      else if take 1 cs = ''/'' then parse_endtag cs
      else if take 3 cs = ''!--'' then parse_comment cs
      else if take 1 cs = ''?'' then parse_pi cs
      else if take 1 cs = ''!'' then parse_html_declaration cs
      else ([Data ''<''], cs))"

lemma suffix_after_gt: "suffix (after_gt s) s"
  unfolding after_gt_def by (rule suffix_order.trans [OF suffix_drop suffix_dropWhile])

lemma suffix_skip_space: "suffix (skip_space s) s"
  unfolding skip_space_def by (rule suffix_dropWhile)

lemmas suffix_steps =
  suffix_order.refl suffix_drop suffix_dropWhile suffix_after_gt suffix_skip_space
  suffix_break_at suffix_scan_attrs

lemma suffix_trans2: "suffix a b \<Longrightarrow> suffix b c \<Longrightarrow> suffix a c"
  by (rule suffix_order.trans)

lemma suffix_incomplete: "suffix (snd (incomplete cs)) cs"
  unfolding incomplete_def after_gt_def [symmetric]
  by (auto intro: suffix_steps)

lemma suffix_raw_text: "suffix (snd (raw_text name s)) s"
proof -
  have "suffix (after_gt (snd (break_at (closes_raw name) s))) s"
    by (rule suffix_trans2 [OF suffix_after_gt suffix_break_at])
  then show ?thesis by (auto simp: raw_text_def split: prod.splits)
qed

lemma suffix_parse_starttag: "suffix (snd (parse_starttag cs)) cs"
proof -
  let ?r = "snd (snd (scan_attrs (dropWhile tag_name_char cs)))"
  have r: "suffix ?r cs"
    by (rule suffix_trans2 [OF suffix_scan_attrs suffix_dropWhile])
  have "suffix (snd (raw_text n ?r)) cs" for n
    by (rule suffix_trans2 [OF suffix_raw_text r])
  with r suffix_incomplete [of cs] show ?thesis
    by (auto simp: parse_starttag_def Let_def split: prod.splits tag_end.splits)
qed

lemma suffix_parse_endtag: "suffix (snd (parse_endtag cs)) cs"
proof -
  have a: "suffix (after_gt (drop 1 cs)) cs"
    by (rule suffix_trans2 [OF suffix_after_gt suffix_drop])
  have b: "suffix (drop 1 (drop 1 cs)) cs"
    by (rule suffix_trans2 [OF suffix_drop suffix_drop])
  have "suffix (drop 1 (skip_space (dropWhile end_name_char (skip_space (drop 1 cs)))))
          (drop 1 cs)"
    by (intro suffix_trans2 [OF suffix_drop] suffix_trans2 [OF suffix_skip_space]
        suffix_trans2 [OF suffix_dropWhile] suffix_skip_space)
  then have c: "suffix (drop 1 (skip_space (dropWhile end_name_char (skip_space (drop 1 cs))))) cs"
    by (rule suffix_trans2 [OF _ suffix_drop])
  from a b c suffix_incomplete [of cs] show ?thesis
    by (simp add: parse_endtag_def Let_def)
qed

lemma suffix_parse_comment: "suffix (snd (parse_comment cs)) cs"
proof -
  let ?b = "snd (break_at comment_close (drop 3 cs))"
  have "suffix (drop 1 (skip_space (drop 2 ?b))) ?b"
    by (intro suffix_trans2 [OF suffix_drop] suffix_trans2 [OF suffix_skip_space] suffix_drop)
  then have "suffix (drop 1 (skip_space (drop 2 ?b))) cs"
    by (rule suffix_trans2 [OF _ suffix_trans2 [OF suffix_break_at suffix_drop]])
  with suffix_incomplete [of cs] show ?thesis
    by (auto simp: parse_comment_def split: prod.splits)
qed

lemma suffix_parse_pi: "suffix (snd (parse_pi cs)) cs"
  using suffix_incomplete [of cs] suffix_trans2 [OF suffix_after_gt suffix_drop, of 1 cs]
  by (simp add: parse_pi_def)

lemma suffix_parse_marked_section: "suffix (snd (parse_marked_section cs)) cs"
proof -
  let ?r = "drop 2 cs"
  let ?b = "snd (break_at section_close ?r)"
  let ?c = "snd (break_at ms_section_close ?r)"
  have r: "suffix ?r cs" by (rule suffix_drop)
  have "suffix (drop 1 (skip_space (drop 1 (skip_space (drop 1 ?b))))) ?b"
    by (intro suffix_trans2 [OF suffix_drop] suffix_trans2 [OF suffix_skip_space] suffix_drop)
  then have b: "suffix (drop 1 (skip_space (drop 1 (skip_space (drop 1 ?b))))) cs"
    by (rule suffix_trans2 [OF _ suffix_trans2 [OF suffix_break_at r]])
  have "suffix (drop 1 (skip_space (drop 1 ?c))) ?c"
    by (intro suffix_trans2 [OF suffix_drop] suffix_trans2 [OF suffix_skip_space] suffix_drop)
  then have c: "suffix (drop 1 (skip_space (drop 1 ?c))) cs"
    by (rule suffix_trans2 [OF _ suffix_trans2 [OF suffix_break_at r]])
  from b c suffix_incomplete [of cs] show ?thesis
    by (auto simp: parse_marked_section_def Let_def split: prod.splits)
qed

lemma suffix_parse_html_declaration: "suffix (snd (parse_html_declaration cs)) cs"
  using suffix_incomplete [of cs] suffix_parse_marked_section [of cs]
    suffix_trans2 [OF suffix_after_gt suffix_drop, of 1 cs]
  by (simp add: parse_html_declaration_def)

lemma suffix_markup: "suffix (snd (markup cs)) cs"
  using suffix_parse_starttag suffix_parse_endtag suffix_parse_comment suffix_parse_pi
    suffix_parse_html_declaration
  by (simp add: markup_def)

text \<open>
  The events of a document: character data up to the next \<open><\<close>, then the construct
  that starts there.
\<close>

function tokenize :: "string \<Rightarrow> token list" where
  "tokenize [] = []"
| "tokenize (c # cs) =
     (if c \<noteq> CHR ''<'' then
        Data (c # takeWhile (\<lambda>x. x \<noteq> CHR ''<'') cs)
          # tokenize (dropWhile (\<lambda>x. x \<noteq> CHR ''<'') cs)
      else fst (markup cs) @ tokenize (snd (markup cs)))"
  by pat_completeness auto

termination tokenize
proof (relation "measure length")
  show "wf (measure length)" by simp
next
  fix c :: char and cs :: string
  have "length (dropWhile (\<lambda>x. x \<noteq> CHR ''<'') cs) \<le> length cs" by (rule length_dropWhile_le)
  then show "(dropWhile (\<lambda>x. x \<noteq> CHR ''<'') cs, c # cs) \<in> measure length" by simp
next
  fix c :: char and cs :: string
  have "length (snd (markup cs)) \<le> length cs"
    using suffix_markup by (rule suffix_length_le)
  then show "(snd (markup cs), c # cs) \<in> measure length" by simp
qed

text \<open>
  The tree builder. Its state is the stack of open elements, innermost first (of each
  its name, its attributes and the contents it has so far; the last frame is the
  document), the names of the void elements closed at their start tag whose end tag,
  should one come, is to be ignored, and the character data waiting to become a string.
\<close>

type_synonym frame = "string \<times> (string \<times> string) list \<times> node list"

type_synonym builder = "frame list \<times> string list \<times> string option"

definition void_tags :: "string list" where
  "void_tags = [''area'', ''base'', ''br'', ''col'', ''embed'', ''hr'', ''img'', ''input'',
     ''keygen'', ''link'', ''menuitem'', ''meta'', ''param'', ''source'', ''track'', ''wbr'',
     ''basefont'', ''bgsound'', ''command'', ''frame'', ''image'', ''isindex'', ''nextid'',
     ''spacer'']"

fun add_child :: "node \<Rightarrow> frame list \<Rightarrow> frame list" where
  "add_child n ((name, attrs, contents) # rest) = (name, attrs, contents @ [n]) # rest"
| "add_child n [] = []"

text \<open>
  \<open>_popToTag\<close>: the open elements are closed up to and including the nearest one of
  the given name.
\<close>

fun pop_to_tag :: "string \<Rightarrow> frame list \<Rightarrow> frame list" where
  "pop_to_tag n ((name, attrs, contents) # parent # rest) =
     (if name = n then add_child (Tag name attrs contents) (parent # rest)
      else pop_to_tag n (add_child (Tag name attrs contents) (parent # rest)))"
| "pop_to_tag n st = st"

text \<open>
  A string of ASCII white space only becomes one newline or one space, except inside
  \<open>pre\<close> and \<open>textarea\<close>.
\<close>

definition collapse_space :: "string \<Rightarrow> string" where
  "collapse_space d =
     (if list_all (\<lambda>c. c \<in> set [CHR '' '', NL, CHR 0x09, CHR 0x0C, CHR 0x0D]) d
      then (if NL \<in> set d then [NL] else '' '')
      else d)"

definition open_in :: "string list \<Rightarrow> frame list \<Rightarrow> bool" where
  "open_in names st = list_ex (\<lambda>f. fst f \<in> set names) (butlast st)"

definition add_string :: "(string \<Rightarrow> node) \<Rightarrow> string \<Rightarrow> frame list \<Rightarrow> frame list" where
  "add_string cls d st =
     add_child (cls (if open_in [''pre'', ''textarea''] st then d else collapse_space d)) st"

text \<open>The class of a string of character data: special inside the five containers.\<close>

definition string_container :: "frame list \<Rightarrow> string \<Rightarrow> node" where
  "string_container st =
     (if open_in [''rt'', ''rp'', ''style'', ''script'', ''template''] st then Special
      else NavigableString)"

fun endData :: "builder \<Rightarrow> builder" where
  "endData (st, closed, Some d) = (add_string (string_container st) d st, closed, None)"
| "endData (st, closed, None) = (st, closed, None)"

text \<open>A comment, declaration or CDATA section: a string of its own class.\<close>

definition object_was_parsed :: "(string \<Rightarrow> node) \<Rightarrow> string \<Rightarrow> builder \<Rightarrow> builder" where
  "object_was_parsed cls d b =
     (case endData b of (st, closed, cur) \<Rightarrow> (add_string cls d st, closed, None))"

text \<open>
  An end tag. The end tag of a void element already closed is crossed off and ignored,
  without ending the character data; any other closes up to the nearest open element of
  its name and is dropped when none is open.
\<close>

fun handle_endtag :: "string \<Rightarrow> builder \<Rightarrow> builder" where
  "handle_endtag name (st, closed, cur) =
     (if name \<in> set closed then (st, remove1 name closed, cur)
      else (case endData (st, closed, cur) of
              (st', closed', cur') \<Rightarrow>
                (if name \<in> set (map fst (butlast st')) then pop_to_tag name st' else st',
                 closed', None)))"

text \<open>
  One parser event. A tag written \<open><x/>\<close> is a start tag followed by its end tag; a
  void element written \<open><x>\<close> is closed at once. Of an attribute written twice the last
  value stands, so the attributes are stored last first.
\<close>

fun handle :: "builder \<Rightarrow> token \<Rightarrow> builder" where
  "handle (st, closed, cur) (Data d) =
     (st, closed, Some ((case cur of None \<Rightarrow> [] | Some x \<Rightarrow> x) @ d))"
| "handle b (CDataSection d) = object_was_parsed CData d b"
| "handle b (Markup m) = object_was_parsed Special m b"
| "handle b (StartTag name attrs selfclosing) =
     (case endData b of
        (st, closed, cur) \<Rightarrow>
          if selfclosing then handle_endtag name ((name, rev attrs, []) # st, closed, None)
          else if name \<in> set void_tags
          then (add_child (Tag name (rev attrs) []) st, closed @ [name], None)
          else ((name, rev attrs, []) # st, closed, None))"
| "handle b (EndTag name) = handle_endtag name b"
| "handle b Rejected = b"
| "handle b Beyond = b"

fun close_all :: "frame list \<Rightarrow> node list" where
  "close_all ((name, attrs, contents) # parent # rest) =
     close_all (add_child (Tag name attrs contents) (parent # rest))"
| "close_all [(name, attrs, contents)] = contents"
| "close_all [] = []"

definition modelled_markup :: "string \<Rightarrow> bool" where
  "modelled_markup html =
     list_all (\<lambda>c. c \<noteq> CHR ''&'' \<and> 0 < (of_char c :: nat) \<and> (of_char c :: nat) < 128) html"

definition html_parser :: "string \<Rightarrow> (py_error + soup) option" where
  "html_parser html =
     (let tokens = tokenize html
      in if \<not> modelled_markup html \<or> Beyond \<in> set tokens then None
         else if Rejected \<in> set tokens then Some (Inl ParserRejectedMarkup)
         else Some (Inr (close_all (fst (endData
                (foldl handle ([(''[document]'', [], [])], [], None) tokens))))))"

text \<open>
  \<open>BeautifulSoup(html, 'html.parser')\<close> on the modelled fragment; nothing is said of it
  elsewhere.
\<close>

definition BeautifulSoup :: "string \<Rightarrow> py_error + soup" where
  "BeautifulSoup html = the (html_parser html)"

section \<open>Properties of the duration parser\<close>

lemmas duration_eval =
  parse_duration_def duration_to_seconds_def duration_fields_def re_match_duration_def
  match_group_def group_int_def py_int_def max_str_digits_def int_of_digits_def is_digit_def
  py_str_def fmt_02d_def str_nat.simps digit_char_def

text \<open>
  C2. The parser on the specification's test vectors: \<open>PT4M13S\<close> is 253 seconds and
  \<open>4:13\<close>, \<open>PT1H2M3S\<close> is 3723 seconds and \<open>1:02:03\<close>, \<open>PT0S\<close> is 0 seconds and
  \<open>0:00\<close>.
\<close>

theorem duration_test_vectors:
  "duration_to_seconds ''PT4M13S'' = Inr 253 \<and> parse_duration ''PT4M13S'' = Inr ''4:13'' \<and>
   duration_to_seconds ''PT1H2M3S'' = Inr 3723 \<and>
   parse_duration ''PT1H2M3S'' = Inr ''1:02:03'' \<and>
   duration_to_seconds ''PT0S'' = Inr 0 \<and> parse_duration ''PT0S'' = Inr ''0:00''"
  by (simp add: duration_eval)

subsection \<open>The fields are natural numbers\<close>

lemma foldl_digits_nonneg:
  "0 \<le> a \<Longrightarrow> 0 \<le> foldl (\<lambda>acc c. 10 * acc + int (of_char c - 48)) a ds"
  by (induction ds arbitrary: a) simp_all

lemma int_of_digits_nonneg: "0 \<le> int_of_digits ds"
  by (simp add: int_of_digits_def foldl_digits_nonneg)

lemma group_int_nonneg: "group_int g = Inr n \<Longrightarrow> 0 \<le> n"
  by (cases g) (auto simp: group_int_def py_int_def int_of_digits_nonneg split: if_splits)

lemma duration_fields_nonneg:
  "duration_fields s = Inr (Some (h, m, sec)) \<Longrightarrow> 0 \<le> h \<and> 0 \<le> m \<and> 0 \<le> sec"
  by (auto simp: duration_fields_def split: option.splits sum.splits dest: group_int_nonneg)

subsection \<open>The decimal rendering\<close>

lemma digit_char_in: "n < 10 \<Longrightarrow> digit_char n \<in> set ''0123456789''"
  unfolding digit_char_def by (rule nth_mem) simp

lemma str_nat_digits: "set (str_nat n) \<subseteq> set ''0123456789''"
proof (induction n rule: str_nat.induct)
  case (1 n)
  show ?case
  proof (cases "n < 10")
    case True
    then show ?thesis using digit_char_in [of n] by (subst str_nat.simps) simp
  next
    case False
    have "n mod 10 < 10" by simp
    then have "digit_char (n mod 10) \<in> set ''0123456789''" by (rule digit_char_in)
    with False 1 show ?thesis by (subst str_nat.simps) simp
  qed
qed

lemma str_nat_nonempty: "str_nat n \<noteq> []"
  by (subst str_nat.simps) simp

lemma length_str_nat_one: "n < 10 \<Longrightarrow> length (str_nat n) = 1"
  by (subst str_nat.simps) simp

lemma length_str_nat_two: "10 \<le> n \<Longrightarrow> 2 \<le> length (str_nat n)"
  using str_nat_nonempty [of "n div 10"]
  by (subst str_nat.simps) (cases "str_nat (n div 10)"; simp)

lemma py_str_head: "py_str i \<noteq> [] \<and> hd (py_str i) \<in> set ''-0123456789''"
proof (cases "i < 0")
  case True
  then show ?thesis by (simp add: py_str_def)
next
  case False
  have "hd (str_nat (nat i)) \<in> set (str_nat (nat i))"
    using str_nat_nonempty by (rule hd_in_set)
  then have "hd (str_nat (nat i)) \<in> set ''0123456789''"
    using str_nat_digits by blast
  with False show ?thesis by (simp add: py_str_def str_nat_nonempty)
qed

lemma fmt_02d_two_digits: "0 \<le> n \<Longrightarrow> fmt_02d n = two_digits n"
proof (cases "n < 10")
  case True
  assume "0 \<le> n"
  with True have "nat n < 10" by simp
  then have "length (str_nat (nat n)) = 1" by (rule length_str_nat_one)
  with True \<open>0 \<le> n\<close> show ?thesis by (simp add: fmt_02d_def two_digits_def py_str_def)
next
  case False
  assume "0 \<le> n"
  with False have "10 \<le> nat n" by simp
  then have "2 \<le> length (str_nat (nat n))" by (rule length_str_nat_two)
  with False \<open>0 \<le> n\<close> show ?thesis by (simp add: fmt_02d_def two_digits_def py_str_def)
qed

text \<open>
  C7. When the parser accepts its input, the human-readable string is \<open>H:MM:SS\<close> when
  the hours are positive, minutes and seconds zero-padded to two digits, and \<open>M:SS\<close>
  otherwise, minutes unpadded and seconds zero-padded to two digits; a duration whose
  three fields are zero renders as \<open>0:00\<close>.
\<close>

theorem human_readable_format:
  assumes "duration_fields s = Inr (Some (h, m, sec))"
  shows "parse_duration s =
           Inr (if h > 0 then py_str h @ '':'' @ two_digits m @ '':'' @ two_digits sec
                else py_str m @ '':'' @ two_digits sec) \<and>
         (h = 0 \<and> m = 0 \<and> sec = 0 \<longrightarrow> parse_duration s = Inr ''0:00'')"
proof -
  from assms have nn: "0 \<le> m" "0 \<le> sec" using duration_fields_nonneg by blast+
  have zero: "py_str 0 = ''0''" "fmt_02d 0 = ''00''"
    by (simp_all add: py_str_def fmt_02d_def str_nat.simps digit_char_def)
  show ?thesis using assms nn zero
    by (simp add: parse_duration_def fmt_02d_two_digits)
qed

theorem human_readable_format_witness:
  "duration_fields ''PT1H2M3S'' = Inr (Some (1, 2, 3)) \<and>
   parse_duration ''PT1H2M3S'' = Inr ''1:02:03'' \<and>
   duration_fields ''PT7M'' = Inr (Some (0, 7, 0)) \<and> parse_duration ''PT7M'' = Inr ''7:00'' \<and>
   duration_fields ''PT'' = Inr (Some (0, 0, 0)) \<and> parse_duration ''PT'' = Inr ''0:00''"
proof -
  have a: "duration_fields ''PT1H2M3S'' = Inr (Some (1, 2, 3))" by (simp add: duration_eval)
  have b: "duration_fields ''PT7M'' = Inr (Some (0, 7, 0))" by (simp add: duration_eval)
  have c: "duration_fields ''PT'' = Inr (Some (0, 0, 0))" by (simp add: duration_eval)
  have p: "py_str 0 = ''0''" "py_str 1 = ''1''" "py_str 7 = ''7''"
    "two_digits 2 = ''02''" "two_digits 3 = ''03''" "two_digits 0 = ''00''"
    by (simp_all add: py_str_def two_digits_def str_nat.simps digit_char_def)
  show ?thesis
    using human_readable_format [OF a] human_readable_format [OF b]
      human_readable_format [OF c] a b c p
    by simp
qed




subsection \<open>Inputs without a match, and inputs on which the conversion raises\<close>

lemma pattern_PT: "in_duration_pattern ''PT''"
  by (simp add: in_duration_pattern_def opt_group_def)

lemma PT_in_prefixes: "take 2 s = ''PT'' \<Longrightarrow> ''PT'' \<in> set (prefixes s)"
  by (metis in_set_prefixes take_is_prefix)

lemma no_match_sentinel:
  assumes "\<forall>p \<in> set (prefixes s). \<not> in_duration_pattern p"
  shows "parse_duration s = Inr ''Unknown'' \<and> duration_to_seconds s = Inr 0"
proof -
  have "take 2 s \<noteq> ''PT''" using assms pattern_PT PT_in_prefixes by blast
  then show ?thesis
    by (simp add: parse_duration_def duration_to_seconds_def duration_fields_def
        re_match_duration_def)
qed

lemma group_int_cases:
  "group_int g = (case g of None \<Rightarrow> Inr 0
                  | Some ds \<Rightarrow> if max_str_digits < length ds then Inl ValueError
                               else Inr (int_of_digits ds))"
  by (simp add: group_int_def py_int_def split: option.splits)

lemma short_groups_return:
  assumes "\<forall>ds \<in> set (matched_groups s). length ds \<le> max_str_digits"
  shows "\<exists>t n. parse_duration s = Inr t \<and> duration_to_seconds s = Inr n"
proof (cases "re_match_duration s")
  case None
  then show ?thesis
    by (simp add: parse_duration_def duration_to_seconds_def duration_fields_def)
next
  case (Some g)
  obtain g1 g2 g3 where g: "g = (g1, g2, g3)" by (cases g)
  from assms Some g have "\<exists>h. group_int g1 = Inr h" "\<exists>m. group_int g2 = Inr m"
    "\<exists>x. group_int g3 = Inr x"
    by (auto simp: matched_groups_def group_int_cases split: option.splits)
  then obtain h m x where "group_int g1 = Inr h" "group_int g2 = Inr m" "group_int g3 = Inr x"
    by blast
  with Some g show ?thesis
    by (simp add: parse_duration_def duration_to_seconds_def duration_fields_def)
qed

lemma long_group_raises:
  assumes "\<exists>ds \<in> set (matched_groups s). max_str_digits < length ds"
  shows "parse_duration s = Inl ValueError \<and> duration_to_seconds s = Inl ValueError"
proof (cases "re_match_duration s")
  case None
  with assms show ?thesis by (simp add: matched_groups_def)
next
  case (Some g)
  obtain g1 g2 g3 where g: "g = (g1, g2, g3)" by (cases g)
  have e: "group_int x = Inl e \<Longrightarrow> e = ValueError" for x e
    by (auto simp: group_int_cases split: option.splits if_splits)
  from assms Some g have "(\<exists>e. group_int g1 = Inl e) \<or> (\<exists>e. group_int g2 = Inl e) \<or>
      (\<exists>e. group_int g3 = Inl e)"
    by (auto simp: matched_groups_def group_int_cases split: option.splits)
  then have "duration_fields s = Inl ValueError"
    using Some g e by (auto simp: duration_fields_def split: sum.splits)
  then show ?thesis by (simp add: parse_duration_def duration_to_seconds_def)
qed

lemma re_match_long_seconds:
  "re_match_duration long_seconds = Some (None, None, Some (replicate 4301 CHR ''1''))"
proof -
  let ?ds = "replicate 4301 CHR ''1''"
  have d: "is_digit CHR ''1''" "\<not> is_digit CHR ''S''" by (simp_all add: is_digit_def)
  have tw: "takeWhile is_digit (?ds @ ''S'') = ?ds"
    using d by (subst takeWhile_append2) auto
  have dw: "dropWhile is_digit (?ds @ ''S'') = ''S''"
    using d by (subst dropWhile_append2) auto
  have ne: "?ds \<noteq> []" by simp
  have h: "match_group CHR ''H'' (?ds @ ''S'') = (None, ?ds @ ''S'')"
    by (simp only: match_group_def tw dw Let_def) simp
  have m: "match_group CHR ''M'' (?ds @ ''S'') = (None, ?ds @ ''S'')"
    by (simp only: match_group_def tw dw Let_def) simp
  have s: "match_group CHR ''S'' (?ds @ ''S'') = (Some ?ds, [])"
    using ne by (simp only: match_group_def tw dw Let_def) simp
  have "take 2 long_seconds = ''PT''" "drop 2 long_seconds = ?ds @ ''S''"
    by (simp_all add: long_seconds_def)
  then show ?thesis by (simp add: re_match_duration_def h m s)
qed

lemma long_seconds_raises:
  "parse_duration long_seconds = Inl ValueError \<and>
   duration_to_seconds long_seconds = Inl ValueError"
proof (rule long_group_raises)
  have "replicate 4301 CHR ''1'' \<in> set (matched_groups long_seconds)"
    by (simp add: matched_groups_def re_match_long_seconds)
  moreover have "max_str_digits < length (replicate 4301 CHR ''1'')"
    by (simp add: max_str_digits_def)
  ultimately show "\<exists>ds \<in> set (matched_groups long_seconds). max_str_digits < length ds"
    by blast
qed

text \<open>
  C1, as the code has it. \<open>re.match\<close> looks for the pattern at the start of the input
  and ignores what follows. For every input no prefix of which matches the pattern (the
  empty string is one), the parser returns the sentinel: 0 seconds and \<open>Unknown\<close>. The
  parser raises exactly when a digit run of the match has more than 4300 digits, the
  limit of \<open>int\<close>, and what it raises is \<open>ValueError\<close>; on every other input both
  methods return a value.
\<close>

theorem sentinel_without_match:
  "((\<forall>p \<in> set (prefixes s). \<not> in_duration_pattern p) \<longrightarrow>
      parse_duration s = Inr ''Unknown'' \<and> duration_to_seconds s = Inr 0) \<and>
   ((\<forall>ds \<in> set (matched_groups s). length ds \<le> max_str_digits) \<longrightarrow>
      (\<exists>t n. parse_duration s = Inr t \<and> duration_to_seconds s = Inr n)) \<and>
   ((\<exists>ds \<in> set (matched_groups s). max_str_digits < length ds) \<longrightarrow>
      parse_duration s = Inl ValueError \<and> duration_to_seconds s = Inl ValueError)"
  using no_match_sentinel short_groups_return long_group_raises by blast

theorem sentinel_without_match_witness:
  "parse_duration '''' = Inr ''Unknown'' \<and> duration_to_seconds '''' = Inr 0 \<and>
   parse_duration ''P1DT2H'' = Inr ''Unknown'' \<and> duration_to_seconds ''P1DT2H'' = Inr 0 \<and>
   parse_duration ''PT12M'' = Inr ''12:00'' \<and> duration_to_seconds ''PT12M'' = Inr 720 \<and>
   parse_duration long_seconds = Inl ValueError \<and>
   duration_to_seconds long_seconds = Inl ValueError"
proof -
  have a: "\<forall>p \<in> set (prefixes ''''). \<not> in_duration_pattern p"
    by (simp add: in_duration_pattern_def)
  have b: "\<forall>p \<in> set (prefixes ''P1DT2H''). \<not> in_duration_pattern p"
    by (simp add: in_duration_pattern_def)
  have c: "\<forall>ds \<in> set (matched_groups ''PT12M''). length ds \<le> max_str_digits"
    by (simp add: matched_groups_def re_match_duration_def match_group_def is_digit_def
        max_str_digits_def)
  have v: "parse_duration ''PT12M'' = Inr ''12:00''" "duration_to_seconds ''PT12M'' = Inr 720"
    by (simp_all add: duration_eval)
  have d: "\<exists>ds \<in> set (matched_groups long_seconds). max_str_digits < length ds"
    by (simp add: matched_groups_def re_match_long_seconds max_str_digits_def)
  show ?thesis
    using sentinel_without_match [of "''''"] sentinel_without_match [of "''P1DT2H''"]
      sentinel_without_match [of "''PT12M''"] sentinel_without_match [of long_seconds]
      a b c d v
    by simp
qed

text \<open>
  C1 as stated fails twice: \<open>PT1Hxyz\<close> does not match the pattern, and the parser
  returns 3600 seconds and \<open>1:00:00\<close> for it, not the sentinel; and on \<open>PT\<close>, 4301
  digits and \<open>S\<close> it raises.
\<close>

theorem trailing_text_counterexample:
  "\<not> in_duration_pattern ''PT1Hxyz'' \<and> parse_duration ''PT1Hxyz'' = Inr ''1:00:00'' \<and>
   duration_to_seconds ''PT1Hxyz'' = Inr 3600 \<and>
   parse_duration (''PT'' @ replicate 4301 CHR ''1'' @ ''S'') = Inl ValueError"
  using long_seconds_raises
  by (simp add: duration_eval in_duration_pattern_def opt_group_def long_seconds_def)

subsection \<open>The parser applied to its own output\<close>

lemma parse_duration_head:
  assumes "parse_duration s = Inr d"
  shows "d \<noteq> [] \<and> hd d \<noteq> CHR ''P''"
proof (cases "duration_fields s")
  case (Inl e)
  with assms show ?thesis by (simp add: parse_duration_def)
next
  case (Inr f)
  show ?thesis
  proof (cases f)
    case None
    with Inr assms show ?thesis by (auto simp: parse_duration_def)
  next
    case (Some t)
    obtain h m sec where t: "t = (h, m, sec)" by (cases t)
    show ?thesis using py_str_head [of h] py_str_head [of m] Some Inr t assms
      by (auto simp: parse_duration_def split: if_splits)
  qed
qed

lemma no_PT_prefix: "t \<noteq> [] \<Longrightarrow> hd t \<noteq> CHR ''P'' \<Longrightarrow> take 2 t \<noteq> ''PT''"
  by (cases t) auto

lemma seconds_of_output:
  "parse_duration s = Inr d \<Longrightarrow> duration_to_seconds d = Inr 0"
  using parse_duration_head [of s d] no_PT_prefix [of d]
  by (simp add: duration_to_seconds_def duration_fields_def re_match_duration_def)

lemma make_detail_seconds:
  "make_detail count_int item = Inr d \<Longrightarrow> duration_seconds d = 0"
  by (auto simp: make_detail_def Let_def split: option.splits sum.splits
      dest: seconds_of_output)

lemma collect_details_seconds:
  "collect_details count_int items = Inr ds \<Longrightarrow> \<forall>d \<in> set ds. duration_seconds d = 0"
proof (induction items arbitrary: ds)
  case Nil
  then show ?case by simp
next
  case (Cons item items)
  then show ?case
    by (auto split: sum.splits dest: make_detail_seconds)
qed

text \<open>
  C10, as the code has it. For every string \<open>s\<close> on which \<open>_parse_duration\<close> returns,
  \<open>_duration_to_seconds(_parse_duration(s))\<close> is 0: the output of \<open>_parse_duration\<close>
  starts with a digit or is \<open>Unknown\<close>, never with \<open>PT\<close>. Where \<open>_parse_duration\<close>
  raises, the composition raises the same exception. Every \<open>duration_seconds\<close> in the
  list that \<open>_get_video_details\<close> returns is 0, whatever the answer of the API: an
  exception in the loop is caught and gives the fallback list, whose entries have 0.
\<close>

theorem duration_seconds_always_zero:
  "(\<forall>d. parse_duration s = Inr d \<longrightarrow> seconds_of_parsed s = Inr 0) \<and>
   (\<forall>e. parse_duration s = Inl e \<longrightarrow> seconds_of_parsed s = Inl e) \<and>
   (\<forall>d \<in> set (get_video_details count_int video_ids response). duration_seconds d = 0)"
proof (intro conjI allI impI)
  fix d assume "parse_duration s = Inr d"
  then show "seconds_of_parsed s = Inr 0"
    using seconds_of_output by (simp add: seconds_of_parsed_def)
next
  fix e assume "parse_duration s = Inl e"
  then show "seconds_of_parsed s = Inl e" by (simp add: seconds_of_parsed_def)
next
  show "\<forall>d \<in> set (get_video_details count_int video_ids response). duration_seconds d = 0"
    by (auto simp: get_video_details_def Let_def split: sum.splits
        dest: collect_details_seconds)
qed

theorem duration_seconds_always_zero_witness:
  "get_video_details digits_int [''a'']
     (Inr [\<lparr>contentDetails_duration = Some ''PT4M13S'',
            item_statistics = Some \<lparr>viewCount = Some ''12'', likeCount = None\<rparr>\<rparr>])
   = [\<lparr>detail_duration = ''4:13'', duration_seconds = 0, view_count = 12, like_count = 0\<rparr>] \<and>
   get_video_details digits_int [''a'']
     (Inr [\<lparr>contentDetails_duration = Some long_seconds,
            item_statistics = Some \<lparr>viewCount = Some ''12'', likeCount = None\<rparr>\<rparr>])
   = [\<lparr>detail_duration = ''Unknown'', duration_seconds = 0, view_count = 0, like_count = 0\<rparr>] \<and>
   duration_to_seconds ''PT4M13S'' = Inr 253 \<and>
   seconds_of_parsed ''PT4M13S'' = Inr 0 \<and>
   seconds_of_parsed long_seconds = Inl ValueError"
proof -
  have p: "parse_duration ''PT4M13S'' = Inr ''4:13''" by (simp add: duration_eval)
  have q: "parse_duration long_seconds = Inl ValueError" using long_seconds_raises by simp
  have g: "get_video_details digits_int [''a'']
     (Inr [\<lparr>contentDetails_duration = Some long_seconds,
            item_statistics = Some \<lparr>viewCount = Some ''12'', likeCount = None\<rparr>\<rparr>])
   = [\<lparr>detail_duration = ''Unknown'', duration_seconds = 0, view_count = 0, like_count = 0\<rparr>]"
    by (simp add: get_video_details_def make_detail_def q)
  show ?thesis
    using duration_seconds_always_zero [of "''PT4M13S''" digits_int "[''a'']"
       "Inr [\<lparr>contentDetails_duration = Some ''PT4M13S'',
              item_statistics = Some \<lparr>viewCount = Some ''12'', likeCount = None\<rparr>\<rparr>]"]
      duration_seconds_always_zero [of long_seconds] p q g
    by (simp add: get_video_details_def make_detail_def digits_int_def duration_eval)
qed

text \<open>
  C10 as stated fails: on \<open>PT\<close>, 4301 digits and \<open>S\<close> the composition raises
  \<open>ValueError\<close> and yields no number.
\<close>

theorem composition_raises_counterexample:
  "seconds_of_parsed (''PT'' @ replicate 4301 CHR ''1'' @ ''S'') = Inl ValueError \<and>
   seconds_of_parsed (''PT'' @ replicate 4301 CHR ''1'' @ ''S'') \<noteq> Inr 0"
  using long_seconds_raises by (simp add: seconds_of_parsed_def long_seconds_def)

section \<open>Properties of the HTML content extractor\<close>

subsection \<open>Class values and the three words\<close>

lemma sublist_trans: "sublist a b \<Longrightarrow> sublist b c \<Longrightarrow> sublist a c"
  by (rule sublist_order.order.trans)

lemma split_from_sublist: "tok \<in> set (split_from w cs) \<Longrightarrow> sublist tok (w @ cs)"
proof (induction cs arbitrary: w)
  case Nil
  then show ?case by (auto split: if_splits)
next
  case (Cons c cs)
  show ?case
  proof (cases "is_space c")
    case True
    show ?thesis
    proof (cases "tok = w")
      case True
      then show ?thesis by (simp add: sublist_append_rightI)
    next
      case False
      with Cons.prems \<open>is_space c\<close> have "tok \<in> set (split_from [] cs)"
        by (auto split: if_splits)
      then have "sublist tok cs" using Cons.IH [of "[]"] by simp
      then have "sublist tok ((w @ [c]) @ cs)"
        by (rule sublist_trans [OF _ sublist_append_leftI])
      then show ?thesis by simp
    qed
  next
    case False
    with Cons.prems have "tok \<in> set (split_from (w @ [c]) cs)" by simp
    then show ?thesis using Cons.IH [of "w @ [c]"] by simp
  qed
qed

lemma split_sublist: "tok \<in> set (split v) \<Longrightarrow> sublist tok v"
  using split_from_sublist [of tok "[]" v] by (simp add: split_def)

lemma sublist_space_Cons:
  assumes "sublist w (CHR '' '' # zs)" "CHR '' '' \<notin> set w" "w \<noteq> []"
  shows "sublist w zs"
proof -
  from assms(1) have "prefix w (CHR '' '' # zs) \<or> sublist w zs"
    by (simp add: sublist_Cons_right)
  moreover have "\<not> prefix w (CHR '' '' # zs)"
    using assms(2,3) by (cases w) auto
  ultimately show ?thesis by blast
qed

lemma sublist_join:
  assumes "CHR '' '' \<notin> set w" "w \<noteq> []"
  shows "sublist w (join '' '' toks) \<Longrightarrow> \<exists>tok \<in> set toks. sublist w tok"
proof (induction toks)
  case Nil
  then show ?case using assms(2) by simp
next
  case (Cons x xs)
  show ?case
  proof (cases xs)
    case Nil
    with Cons.prems show ?thesis by simp
  next
    case (Cons y ys)
    with Cons.prems have "sublist w (x @ CHR '' '' # join '' '' xs)" by simp
    then consider (l) "sublist w x" | (r) "sublist w (CHR '' '' # join '' '' xs)"
      | (m) xs1 xs2 where "w = xs1 @ xs2" "suffix xs1 x" "prefix xs2 (CHR '' '' # join '' '' xs)"
      unfolding sublist_append by blast
    then show ?thesis
    proof cases
      case l
      then show ?thesis by simp
    next
      case r
      then have "sublist w (join '' '' xs)" using assms by (rule sublist_space_Cons)
      then show ?thesis using Cons.IH by auto
    next
      case m
      have "xs2 = []"
      proof (rule ccontr)
        assume ne: "xs2 \<noteq> []"
        with m(3) have "hd xs2 = CHR '' ''" by (cases xs2) auto
        with ne have "CHR '' '' \<in> set xs2" using hd_in_set [of xs2] by simp
        with m(1) assms(1) show False by simp
      qed
      with m(1,2) have "sublist w x" by (simp add: suffix_imp_sublist)
      then show ?thesis by simp
    qed
  qed
qed

lemma re_search_class_token:
  assumes "tok \<in> set (split v)" "re_search_class tok"
  shows "re_search_class v"
  using assms split_sublist [of tok v]
  unfolding re_search_class_def by (blast intro: sublist_trans)

lemma re_search_class_join:
  assumes "re_search_class (join '' '' (split v))"
  shows "re_search_class v"
proof -
  have "\<And>w. CHR '' '' \<notin> set w \<Longrightarrow> w \<noteq> [] \<Longrightarrow> sublist w (join '' '' (split v)) \<Longrightarrow> sublist w v"
    using sublist_join split_sublist sublist_trans by blast
  then show ?thesis using assms unfolding re_search_class_def by auto
qed

lemma re_search_class_lower: "re_search_class v \<Longrightarrow> re_search_class (map to_lower v)"
proof -
  have l: "map to_lower ''content'' = ''content''" "map to_lower ''article'' = ''article''"
    "map to_lower ''main'' = ''main''"
    by (simp_all add: to_lower_def)
  assume "re_search_class v"
  then show ?thesis
    unfolding re_search_class_def
    using map_mono_sublist [of "''content''" v to_lower] map_mono_sublist [of "''article''" v to_lower]
      map_mono_sublist [of "''main''" v to_lower] l by auto
qed

lemma class_matches_spec: "class_matches n \<Longrightarrow> spec_class_matches n"
proof (cases n)
  case (Tag name attrs contents)
  assume "class_matches n"
  with Tag obtain v where v: "map_of attrs ''class'' = Some v"
    and m: "list_ex re_search_class (split v) \<or> re_search_class (join '' '' (split v))"
    by (auto split: option.splits)
  from m have "re_search_class v"
    using re_search_class_token re_search_class_join by (auto simp: list_ex_iff)
  then show ?thesis using Tag v by (simp add: re_search_class_lower)
qed simp_all


subsection \<open>What removing elements keeps\<close>

lemma named_decompose [simp]: "named x (decompose_all P n) = named x n"
  by (cases n) simp_all

lemma class_matches_decompose [simp]: "class_matches (decompose_all P n) = class_matches n"
  by (cases n) simp_all

lemma script_or_style_decompose [simp]:
  "script_or_style (decompose_all P n) = script_or_style n"
  by (simp add: script_or_style_def)

lemma descendants_decompose:
  "m \<in> set (descendants (decompose_all P n)) \<Longrightarrow>
   \<exists>m0 \<in> set (descendants n). m = decompose_all P m0 \<and> \<not> P m0"
proof (induction P n arbitrary: m rule: decompose_all.induct)
  case (1 P name attrs contents)
  from "1.prems" obtain c where c: "c \<in> set contents" "\<not> P c"
    and m: "m = decompose_all P c \<or> m \<in> set (descendants (decompose_all P c))"
    by auto
  from m show ?case
  proof
    assume "m = decompose_all P c"
    with c show ?thesis by auto
  next
    assume "m \<in> set (descendants (decompose_all P c))"
    with c "1.IH" [of c m] obtain m0 where "m0 \<in> set (descendants c)" "m = decompose_all P m0" "\<not> P m0"
      by auto
    with c show ?thesis by auto
  qed
qed simp_all

lemma soup_descendants_decompose:
  assumes "m \<in> set (soup_descendants (soup_decompose_all P soup))"
  shows "\<exists>m0 \<in> set (soup_descendants soup). m = decompose_all P m0 \<and> \<not> P m0"
proof -
  from assms obtain c where c: "c \<in> set soup" "\<not> P c"
    and m: "m = decompose_all P c \<or> m \<in> set (descendants (decompose_all P c))"
    by (auto simp: soup_descendants_def soup_decompose_all_def)
  from m show ?thesis
  proof
    assume "m = decompose_all P c"
    with c show ?thesis by (auto simp: soup_descendants_def)
  next
    assume "m \<in> set (descendants (decompose_all P c))"
    then obtain m0 where "m0 \<in> set (descendants c)" "m = decompose_all P m0" "\<not> P m0"
      using descendants_decompose by blast
    with c show ?thesis by (auto simp: soup_descendants_def)
  qed
qed

lemma no_script_or_style_left:
  "m \<in> set (soup_descendants (soup_decompose_all script_or_style soup)) \<Longrightarrow> \<not> script_or_style m"
  using soup_descendants_decompose [of m script_or_style soup] by auto

lemma soup_find_None:
  assumes "\<And>m. m \<in> set (soup_descendants soup) \<Longrightarrow> \<not> Q m"
    and "\<And>m. Q (decompose_all P m) = Q m"
  shows "soup_find Q (soup_decompose_all P soup) = None"
proof -
  have "\<not> Q m" if "m \<in> set (soup_descendants (soup_decompose_all P soup))" for m
    using soup_descendants_decompose [OF that] assms by auto
  then show ?thesis by (auto simp: soup_find_def find_None_iff)
qed

lemma script_or_style_blank [simp]: "script_or_style (blank_scripts n) = script_or_style n"
  by (cases n) (simp_all add: script_or_style_def)

lemma decompose_blank:
  "\<not> script_or_style n \<Longrightarrow>
   decompose_all script_or_style (blank_scripts n) = decompose_all script_or_style n"
proof (induction n rule: blank_scripts.induct)
  case (1 name attrs contents)
  then have nm: "name \<noteq> ''script''" "name \<noteq> ''style''" by (auto simp: script_or_style_def)
  have "map (decompose_all script_or_style) (filter (\<lambda>c. \<not> script_or_style c) (map blank_scripts contents))
      = map (decompose_all script_or_style) (filter (\<lambda>c. \<not> script_or_style c) contents)"
    using "1.IH" nm by (induction contents) auto
  with nm show ?case by simp
qed simp_all

lemma soup_decompose_blank:
  "soup_decompose_all script_or_style (map blank_scripts soup) = soup_decompose_all script_or_style soup"
  unfolding soup_decompose_all_def
  by (induction soup) (auto simp: decompose_blank)

lemma soup_decompose_cong:
  assumes "map blank_scripts soup1 = map blank_scripts soup2"
  shows "soup_decompose_all script_or_style soup1 = soup_decompose_all script_or_style soup2"
  using soup_decompose_blank [of soup1] soup_decompose_blank [of soup2] assms by simp


lemma extract_depends_on_soup:
  assumes "bs html = Inr parsed" "bs html' = Inr parsed'"
    and "soup_decompose_all script_or_style parsed = soup_decompose_all script_or_style parsed'"
  shows "extract_html_content bs html url = extract_html_content bs html' url"
  using assms by (simp add: extract_html_content_def)

text \<open>
  C6. The script and style elements are removed from the tree before the title and the
  text are read: for an input that the parser accepts, no such element is left in the
  tree the extractor works on, and two inputs whose trees differ only inside script and
  style elements give the same result, so no text of a script or style element reaches
  \<open>body_text\<close>.
\<close>

theorem scripts_and_styles_removed:
  assumes "bs html = Inr parsed" and "bs html' = Inr parsed'"
  shows "(\<forall>n \<in> set (soup_descendants (soup_decompose_all script_or_style parsed)).
            \<not> script_or_style n) \<and>
         (map blank_scripts parsed = map blank_scripts parsed' \<longrightarrow>
            extract_html_content bs html url = extract_html_content bs html' url)"
proof (intro conjI ballI impI)
  fix n
  assume "n \<in> set (soup_descendants (soup_decompose_all script_or_style parsed))"
  then show "\<not> script_or_style n" by (rule no_script_or_style_left)
next
  assume "map blank_scripts parsed = map blank_scripts parsed'"
  then have "soup_decompose_all script_or_style parsed =
             soup_decompose_all script_or_style parsed'"
    by (rule soup_decompose_cong)
  with assms show "extract_html_content bs html url = extract_html_content bs html' url"
    by (rule extract_depends_on_soup)
qed

theorem scripts_and_styles_removed_witness:
  "extract_html_content BeautifulSoup
     ''<body><script>var secret = 1;</script><p>seen</p><style>p { color: red }</style></body>''
     ''http://example.com/'' =
   extract_html_content BeautifulSoup
     ''<body><script>other();</script><p>seen</p><style></style></body>''
     ''http://example.com/'' \<and>
   body_text (extract_html_content BeautifulSoup
     ''<body><script>var secret = 1;</script><p>seen</p><style>p { color: red }</style></body>''
     ''http://example.com/'') = Inr ''seen''"
proof -
  let ?h = "''<body><script>var secret = 1;</script><p>seen</p><style>p { color: red }</style></body>''"
  let ?h' = "''<body><script>other();</script><p>seen</p><style></style></body>''"
  let ?t = "[Tag ''body'' [] [Tag ''script'' [] [Special ''var secret = 1;''],
              Tag ''p'' [] [NavigableString ''seen''],
              Tag ''style'' [] [Special ''p { color: red }'']]]"
  let ?t' = "[Tag ''body'' [] [Tag ''script'' [] [Special ''other();''],
              Tag ''p'' [] [NavigableString ''seen''], Tag ''style'' [] []]]"
  have p: "BeautifulSoup ?h = Inr ?t" by code_simp
  have p': "BeautifulSoup ?h' = Inr ?t'" by code_simp
  have e: "map blank_scripts ?t = map blank_scripts ?t'" by simp
  have c: "body_text (extract_html_content BeautifulSoup ?h ''http://example.com/'') = Inr ''seen''"
    by code_simp
  from scripts_and_styles_removed [where bs = BeautifulSoup and html = ?h and html' = ?h'
      and url = "''http://example.com/''", OF p p'] e c
  show ?thesis by simp
qed

subsection \<open>The specification's example\<close>

text \<open>
  C3, as the code has it. For the example document the extractor returns the title
  \<open>T\<close>, the text \<open>Hello   world\<close> with its three spaces, and 2 words: only blank
  lines are normalised, a run of spaces inside a line is kept.
\<close>

theorem spec_example_extraction:
  "extract_html_content BeautifulSoup
      ''<html><head><title>T</title></head><body><main>Hello   world</main></body></html>'' url =
   Inr \<lparr>kind = ''article'', content = ''Hello   world'',
        metadata = \<lparr>source = url, title = ''T'', word_count = 2,
                    extraction_method = ''html_parser''\<rparr>\<rparr>"
  by code_simp

text \<open>C3 as stated fails: the text is not \<open>Hello world\<close> with a single space.\<close>

theorem spaces_not_collapsed_counterexample:
  "body_text (extract_html_content BeautifulSoup
      ''<html><head><title>T</title></head><body><main>Hello   world</main></body></html>''
      ''http://example.com/'') = Inr ''Hello   world'' \<and>
   body_text (extract_html_content BeautifulSoup
      ''<html><head><title>T</title></head><body><main>Hello   world</main></body></html>''
      ''http://example.com/'') \<noteq> Inr ''Hello world''"
  by code_simp

subsection \<open>The choice of the main content\<close>

text \<open>
  C4, as the code has it. For every input that the parser accepts, after the removal of
  script and style elements, the text is that of the first \<open>main\<close> element; else of the
  first \<open>article\<close> element; else of the first \<open>div\<close> element whose class attribute
  contains \<open>content\<close>, \<open>article\<close> or \<open>main\<close> in exactly this case; else of the \<open>body\<close>
  element; else it is empty.
\<close>

theorem main_content_priority:
  assumes "bs html = Inr parsed"
  shows
  "let soup = soup_decompose_all script_or_style parsed;
       result = body_text (extract_html_content bs html url);
       no_main = (soup_find (named ''main'') soup = None);
       no_article = (soup_find (named ''article'') soup = None);
       no_div = (soup_find (\<lambda>n. named ''div'' n \<and> class_matches n) soup = None)
   in (\<forall>m. soup_find (named ''main'') soup = Some m \<longrightarrow> result = Inr (clean_text m)) \<and>
      (\<forall>a. no_main \<and> soup_find (named ''article'') soup = Some a \<longrightarrow>
           result = Inr (clean_text a)) \<and>
      (\<forall>d. no_main \<and> no_article \<and>
           soup_find (\<lambda>n. named ''div'' n \<and> class_matches n) soup = Some d \<longrightarrow>
           result = Inr (clean_text d)) \<and>
      (\<forall>b. no_main \<and> no_article \<and> no_div \<and> soup_find (named ''body'') soup = Some b \<longrightarrow>
           result = Inr (clean_text b)) \<and>
      (no_main \<and> no_article \<and> no_div \<and> soup_find (named ''body'') soup = None \<longrightarrow>
           result = Inr [])"
  using assms
  by (simp add: Let_def extract_html_content_def body_text_def clean_text_def strip_def)

theorem main_content_priority_witness:
  "body_text (extract_html_content BeautifulSoup
     ''<body><article>A</article><div class=\"content\">D</div><main>M</main></body>''
     ''http://example.com/'') = Inr ''M'' \<and>
   body_text (extract_html_content BeautifulSoup
     ''<body><div class=\"content\">D</div><article>A</article>B</body>''
     ''http://example.com/'') = Inr ''A'' \<and>
   body_text (extract_html_content BeautifulSoup
     ''<body>B<section class=\"main\">S</section><div class=\"my-content\">D</div></body>''
     ''http://example.com/'') = Inr ''D'' \<and>
   body_text (extract_html_content BeautifulSoup
     ''<body><div class=\"Content\">D</div><p>B</p></body>''
     ''http://example.com/'') = Inr [CHR ''D'', NL, CHR ''B''] \<and>
   body_text (extract_html_content BeautifulSoup
     ''<p>just text</p>'' ''http://example.com/'') = Inr []"
proof -
  let ?u = "''http://example.com/''"
  let ?h1 = "''<body><article>A</article><div class=\"content\">D</div><main>M</main></body>''"
  let ?h2 = "''<body><div class=\"content\">D</div><article>A</article>B</body>''"
  let ?h3 = "''<body>B<section class=\"main\">S</section><div class=\"my-content\">D</div></body>''"
  let ?h4 = "''<body><div class=\"Content\">D</div><p>B</p></body>''"
  let ?h5 = "''<p>just text</p>''"
  let ?t1 = "[Tag ''body'' [] [Tag ''article'' [] [NavigableString ''A''],
               Tag ''div'' [(''class'', ''content'')] [NavigableString ''D''],
               Tag ''main'' [] [NavigableString ''M'']]]"
  let ?t2 = "[Tag ''body'' [] [Tag ''div'' [(''class'', ''content'')] [NavigableString ''D''],
               Tag ''article'' [] [NavigableString ''A''], NavigableString ''B'']]"
  let ?t3 = "[Tag ''body'' [] [NavigableString ''B'',
               Tag ''section'' [(''class'', ''main'')] [NavigableString ''S''],
               Tag ''div'' [(''class'', ''my-content'')] [NavigableString ''D'']]]"
  let ?t4 = "[Tag ''body'' [] [Tag ''div'' [(''class'', ''Content'')] [NavigableString ''D''],
               Tag ''p'' [] [NavigableString ''B'']]]"
  let ?t5 = "[Tag ''p'' [] [NavigableString ''just text'']]"
  let ?soup = "soup_decompose_all script_or_style"
  let ?div = "\<lambda>n. named ''div'' n \<and> class_matches n"
  have p1: "BeautifulSoup ?h1 = Inr ?t1" by code_simp
  have p2: "BeautifulSoup ?h2 = Inr ?t2" by code_simp
  have p3: "BeautifulSoup ?h3 = Inr ?t3" by code_simp
  have p4: "BeautifulSoup ?h4 = Inr ?t4" by code_simp
  have p5: "BeautifulSoup ?h5 = Inr ?t5" by code_simp
  have m1: "soup_find (named ''main'') (?soup ?t1) = Some (Tag ''main'' [] [NavigableString ''M''])"
    by code_simp
  have c1: "clean_text (Tag ''main'' [] [NavigableString ''M'']) = ''M''" by code_simp
  have m2: "soup_find (named ''main'') (?soup ?t2) = None"
    "soup_find (named ''article'') (?soup ?t2) = Some (Tag ''article'' [] [NavigableString ''A''])"
    by code_simp+
  have c2: "clean_text (Tag ''article'' [] [NavigableString ''A'']) = ''A''" by code_simp
  have m3: "soup_find (named ''main'') (?soup ?t3) = None"
    "soup_find (named ''article'') (?soup ?t3) = None"
    "soup_find ?div (?soup ?t3) =
       Some (Tag ''div'' [(''class'', ''my-content'')] [NavigableString ''D''])"
    by code_simp+
  have c3: "clean_text (Tag ''div'' [(''class'', ''my-content'')] [NavigableString ''D'']) = ''D''"
    by code_simp
  have m4: "soup_find (named ''main'') (?soup ?t4) = None"
    "soup_find (named ''article'') (?soup ?t4) = None"
    "soup_find ?div (?soup ?t4) = None"
    "soup_find (named ''body'') (?soup ?t4) =
       Some (Tag ''body'' [] [Tag ''div'' [(''class'', ''Content'')] [NavigableString ''D''],
                              Tag ''p'' [] [NavigableString ''B'']])"
    by code_simp+
  have c4: "clean_text (Tag ''body'' [] [Tag ''div'' [(''class'', ''Content'')] [NavigableString ''D''],
                              Tag ''p'' [] [NavigableString ''B'']]) = [CHR ''D'', NL, CHR ''B'']"
    by code_simp
  have m5: "soup_find (named ''main'') (?soup ?t5) = None"
    "soup_find (named ''article'') (?soup ?t5) = None"
    "soup_find ?div (?soup ?t5) = None"
    "soup_find (named ''body'') (?soup ?t5) = None"
    by code_simp+
  have r1: "body_text (extract_html_content BeautifulSoup ?h1 ?u) = Inr ''M''"
    using main_content_priority [where bs = BeautifulSoup and html = ?h1 and url = ?u, OF p1] m1 c1 by (simp add: Let_def)
  have r2: "body_text (extract_html_content BeautifulSoup ?h2 ?u) = Inr ''A''"
    using main_content_priority [where bs = BeautifulSoup and html = ?h2 and url = ?u, OF p2] m2 c2 by (simp add: Let_def)
  have r3: "body_text (extract_html_content BeautifulSoup ?h3 ?u) = Inr ''D''"
    using main_content_priority [where bs = BeautifulSoup and html = ?h3 and url = ?u, OF p3] m3 c3 by (simp add: Let_def)
  have r4: "body_text (extract_html_content BeautifulSoup ?h4 ?u) = Inr [CHR ''D'', NL, CHR ''B'']"
    using main_content_priority [where bs = BeautifulSoup and html = ?h4 and url = ?u, OF p4] m4 c4 by (simp add: Let_def)
  have r5: "body_text (extract_html_content BeautifulSoup ?h5 ?u) = Inr []"
    using main_content_priority [where bs = BeautifulSoup and html = ?h5 and url = ?u, OF p5] m5 by (simp add: Let_def)
  from r1 r2 r3 r4 r5 show ?thesis by blast
qed

text \<open>
  C4 as stated fails. A \<open>section\<close> of class \<open>content\<close> is the specification's choice,
  with text \<open>A\<close>; the extractor takes the \<open>body\<close>. So it does for a \<open>div\<close> of
  class \<open>Content\<close>.
\<close>

theorem any_tag_any_case_counterexample:
  "spec_extract BeautifulSoup ''<body><section class=\"content\">A</section>B</body>'' = Inr ''A'' \<and>
   body_text (extract_html_content BeautifulSoup
      ''<body><section class=\"content\">A</section>B</body>'' ''http://example.com/'') =
     Inr [CHR ''A'', NL, CHR ''B''] \<and>
   spec_extract BeautifulSoup ''<body><div class=\"Content\">A</div>B</body>'' = Inr ''A'' \<and>
   body_text (extract_html_content BeautifulSoup
      ''<body><div class=\"Content\">A</div>B</body>'' ''http://example.com/'') =
     Inr [CHR ''A'', NL, CHR ''B'']"
  by code_simp

subsection \<open>Inputs without a candidate, and markup that the parser rejects\<close>

lemma empty_result:
  assumes "bs html = Inr parsed"
    and "\<forall>n \<in> set (soup_descendants parsed).
           \<not> named ''main'' n \<and> \<not> named ''article'' n \<and> \<not> spec_class_matches n \<and>
           \<not> named ''body'' n"
  shows "\<exists>r. extract_html_content bs html url = Inr r \<and> content r = [] \<and>
             word_count (metadata r) = 0 \<and>
             word_count (metadata r) = int (length (split (content r)))"
proof -
  let ?soup = "soup_decompose_all script_or_style parsed"
  have "soup_find (named ''main'') ?soup = None" "soup_find (named ''article'') ?soup = None"
    "soup_find (named ''body'') ?soup = None"
    using assms(2) by (auto intro!: soup_find_None)
  moreover have "soup_find (\<lambda>n. named ''div'' n \<and> class_matches n) ?soup = None"
    using assms(2) class_matches_spec by (intro soup_find_None) auto
  ultimately show ?thesis
    using assms(1) by (simp add: extract_html_content_def split_def strip_def Let_def)
qed

text \<open>
  C8, as the code has it. For every input that the parser accepts and that has no
  \<open>main\<close> element, no \<open>article\<close> element, no element whose class attribute matches and
  no \<open>body\<close> element, the extractor returns the empty text and 0 words, the word count
  being the number of white-space separated words of the cleaned text. Where the parser
  rejects the markup, the method raises the parser's exception: it has no handler.
\<close>

theorem empty_without_candidates:
  "(\<forall>e. bs html = Inl e \<longrightarrow> extract_html_content bs html url = Inl e) \<and>
   (\<forall>parsed. bs html = Inr parsed \<and>
      (\<forall>n \<in> set (soup_descendants parsed).
         \<not> named ''main'' n \<and> \<not> named ''article'' n \<and> \<not> spec_class_matches n \<and>
         \<not> named ''body'' n) \<longrightarrow>
      (\<exists>r. extract_html_content bs html url = Inr r \<and> content r = [] \<and>
           word_count (metadata r) = 0 \<and>
           word_count (metadata r) = int (length (split (content r)))))"
proof (intro conjI allI impI)
  fix e assume "bs html = Inl e"
  then show "extract_html_content bs html url = Inl e"
    by (simp add: extract_html_content_def)
next
  fix parsed
  assume "bs html = Inr parsed \<and>
      (\<forall>n \<in> set (soup_descendants parsed).
         \<not> named ''main'' n \<and> \<not> named ''article'' n \<and> \<not> spec_class_matches n \<and>
         \<not> named ''body'' n)"
  then show "\<exists>r. extract_html_content bs html url = Inr r \<and> content r = [] \<and>
           word_count (metadata r) = 0 \<and>
           word_count (metadata r) = int (length (split (content r)))"
    using empty_result by blast
qed

theorem empty_without_candidates_witness:
  "extract_html_content BeautifulSoup
     ''<p>just text</p><span class=\"note\">x</span>'' ''http://example.com/'' =
   Inr \<lparr>kind = ''article'', content = [],
        metadata = \<lparr>source = ''http://example.com/'', title = ''Untitled'', word_count = 0,
                    extraction_method = ''html_parser''\<rparr>\<rparr> \<and>
   extract_html_content BeautifulSoup ''<![foo]>'' ''http://example.com/'' =
   Inl ParserRejectedMarkup"
proof -
  let ?h = "''<p>just text</p><span class=\"note\">x</span>''"
  let ?t = "[Tag ''p'' [] [NavigableString ''just text''],
             Tag ''span'' [(''class'', ''note'')] [NavigableString ''x'']]"
  have p: "BeautifulSoup ?h = Inr ?t" by code_simp
  have a: "\<forall>n \<in> set (soup_descendants ?t).
             \<not> named ''main'' n \<and> \<not> named ''article'' n \<and> \<not> spec_class_matches n \<and>
             \<not> named ''body'' n"
    by code_simp
  have q: "BeautifulSoup ''<![foo]>'' = Inl ParserRejectedMarkup" by code_simp
  have v: "extract_html_content BeautifulSoup ?h ''http://example.com/'' =
      Inr \<lparr>kind = ''article'', content = [],
        metadata = \<lparr>source = ''http://example.com/'', title = ''Untitled'', word_count = 0,
                    extraction_method = ''html_parser''\<rparr>\<rparr>"
    by code_simp
  from empty_without_candidates [of BeautifulSoup ?h "''http://example.com/''"]
    empty_without_candidates [of BeautifulSoup "''<![foo]>''" "''http://example.com/''"] p a q v
  show ?thesis by simp
qed

text \<open>
  C8 as stated fails: the markup \<open><![foo]>\<close> has no \<open>main\<close>, \<open>article\<close> or \<open>body\<close>
  element and no class attribute, the parser rejects it, and the extraction raises.
\<close>

theorem rejected_markup_counterexample:
  "html_parser ''<![foo]>'' = Some (Inl ParserRejectedMarkup) \<and>
   extract_html_content BeautifulSoup ''<![foo]>'' ''http://example.com/'' =
     Inl ParserRejectedMarkup \<and>
   \<not> sublist ''main'' ''<![foo]>'' \<and> \<not> sublist ''article'' ''<![foo]>'' \<and>
   \<not> sublist ''class'' ''<![foo]>'' \<and> \<not> sublist ''body'' ''<![foo]>''"
  by code_simp

end
